theory Spec2Isabelle
  imports Main
begin

section \<open>Overview\<close>

text \<open>
  A shallow embedding of the Azure AI Search filter translator and of the \<^verbatim>\<open>upsert\<close>
  operation of the vector store adapter.

  The repository holds the class \<^verbatim>\<open>AzureAISearchFilterTranslator\<close> twice.
  \<^verbatim>\<open>src/unnamed/part_002\<close> is the later revision, the one the specification
  describes; \<^verbatim>\<open>src/unnamed/part_001\<close> is an earlier revision. The two
  texts differ in three places: \<^verbatim>\<open>translate\<close> of part_002 trims the rendering and
  returns \<^verbatim>\<open>undefined\<close> when it is empty; \<^verbatim>\<open>escapeFieldName\<close> of part_001 quotes a
  field name that contains \<^verbatim>\<open>/\<close>, a space or \<^verbatim>\<open>-\<close>, that of part_002 returns every
  name unchanged; \<^verbatim>\<open>any\<close> and \<^verbatim>\<open>all\<close> carry a sub-filter in part_001, rendered
  recursively after the prefix \<^verbatim>\<open>x: \<close>, and a predicate string in part_002, inserted
  verbatim. Both are modelled: a name that ends in \<open>1\<close> belongs to part_001, a name
  that ends in \<open>2\<close> to part_002, and \<open>formatValue\<close>, which is the same in both, is
  modelled once.

  The adapter is \<^verbatim>\<open>src/stores/aisearch/src/vector/index.ts\<close>.
\<close>

section \<open>Strings and the string operations of the runtime\<close>

text \<open>
  A string of the program is modelled as the list of its code units, restricted to the
  8-bit range. The operations below are the ones the translator calls on strings and
  arrays of strings: \<^verbatim>\<open>Array.prototype.join\<close>, \<^verbatim>\<open>String.prototype.replace\<close>
  with a global one-character pattern, \<^verbatim>\<open>String.prototype.includes\<close> with a
  one-character needle, and \<^verbatim>\<open>String.prototype.trim\<close>.
\<close>

definition quote :: char where
  "quote = CHR 0x27"

fun join :: "string \<Rightarrow> string list \<Rightarrow> string" where
  "join sep [] = []"
| "join sep [x] = x"
| "join sep (x # y # ys) = x @ sep @ join sep (y # ys)"

definition replaceAll :: "char \<Rightarrow> string \<Rightarrow> string \<Rightarrow> string" where
  "replaceAll c r s = concat (map (\<lambda>x. if x = c then r else [x]) s)"

definition includes_char :: "string \<Rightarrow> char \<Rightarrow> bool" where
  "includes_char s c = (c \<in> set s)"

text \<open>Truthiness of an optional string: absent and the empty string are falsy.\<close>

fun truthy :: "string option \<Rightarrow> bool" where
  "truthy None = False"
| "truthy (Some s) = (s \<noteq> [])"

text \<open>The white space and line terminator code units below \<open>0x100\<close>: TAB, LF, VT, FF, CR,
  SP and NBSP.\<close>

definition isWhiteSpace :: "char \<Rightarrow> bool" where
  "isWhiteSpace c = (c = CHR 0x09 \<or> c = CHR 0x0A \<or> c = CHR 0x0B \<or> c = CHR 0x0C
     \<or> c = CHR 0x0D \<or> c = CHR 0x20 \<or> c = CHR 0xA0)"

definition trim :: "string \<Rightarrow> string" where
  "trim s = rev (dropWhile isWhiteSpace (rev (dropWhile isWhiteSpace s)))"

section \<open>Exceptions\<close>

text \<open>
  The translator has no \<^verbatim>\<open>throw\<close> and no \<^verbatim>\<open>try\<close> of its own, but one call of the
  runtime in it can throw: \<^verbatim>\<open>Date.prototype.toISOString\<close> raises a \<^verbatim>\<open>RangeError\<close> on
  an invalid date. A computation that may throw returns a \<open>result\<close>: \<open>Inl\<close> of the
  error or \<open>Inr\<close> of the value. \<open>andThen\<close> is sequential composition (the rest does
  not run after a throw), and \<open>mapM f xs\<close> is \<^verbatim>\<open>xs.map(f)\<close> for a callback that may
  throw: the first element on which the callback throws ends the loop.
\<close>

datatype js_error = RangeError

type_synonym 'a result = "js_error + 'a"

definition andThen :: "'a result \<Rightarrow> ('a \<Rightarrow> 'b result) \<Rightarrow> 'b result" where
  "andThen m f = (case m of Inl e \<Rightarrow> Inl e | Inr x \<Rightarrow> f x)"

fun mapM :: "('a \<Rightarrow> 'b result) \<Rightarrow> 'a list \<Rightarrow> 'b list result" where
  "mapM f [] = Inr []"
| "mapM f (x # xs) = andThen (f x) (\<lambda>y. andThen (mapM f xs) (\<lambda>ys. Inr (y # ys)))"

section \<open>The filter data model\<close>

text \<open>
  The values of a comparison mapping (\<^verbatim>\<open>Record<string, any>\<close>), as far as
  \<^verbatim>\<open>formatValue\<close> tells them apart. The conversions of a date and of a number to
  text are the runtime's (\<^verbatim>\<open>Date.prototype.toISOString\<close>, \<^verbatim>\<open>String(value)\<close>), not
  the repository's. A date is \<open>JDate (Some t)\<close> when it is valid, with \<open>t\<close> the text
  \<^verbatim>\<open>toISOString()\<close> returns for it, and \<open>JDate None\<close> when it is invalid (its time
  value is \<^verbatim>\<open>NaN\<close>, as in \<^verbatim>\<open>new Date('x')\<close>): \<^verbatim>\<open>toISOString()\<close> throws on it. A
  value of any other type (a number) is given by the text \<^verbatim>\<open>String(value)\<close> returns
  for it.
\<close>

datatype jsvalue =
    JString string
  | JDate "string option"
  | JBoolean bool
  | JNull
  | JUndefined
  | JOther (String: string)

text \<open>A mapping from field names to values, given by \<^verbatim>\<open>Object.entries\<close> of it: the
  pairs in the enumeration order of the object.\<close>

type_synonym entries = "(string \<times> jsvalue) list"

text \<open>
  The two revisions declare the same interface \<^verbatim>\<open>AzureAISearchVectorFilter\<close> except
  for the payload of \<^verbatim>\<open>any\<close> and \<^verbatim>\<open>all\<close>:
  \<^verbatim>\<open>{ collection: string; filter: AzureAISearchVectorFilter }\<close> in part_001 and
  \<^verbatim>\<open>{ collection: string; predicate: string }\<close> in part_002. Every field is optional:
  \<open>None\<close> is an absent field. The constructor arguments are, in this order,
  \<^verbatim>\<open>$filter\<close>, \<^verbatim>\<open>and\<close>, \<^verbatim>\<open>or\<close>, \<^verbatim>\<open>not\<close>, \<^verbatim>\<open>eq\<close>, \<^verbatim>\<open>ne\<close>, \<^verbatim>\<open>gt\<close>,
  \<^verbatim>\<open>ge\<close>, \<^verbatim>\<open>lt\<close>, \<^verbatim>\<open>le\<close>, \<^verbatim>\<open>contains\<close>, \<^verbatim>\<open>startsWith\<close>, \<^verbatim>\<open>endsWith\<close>,
  \<^verbatim>\<open>any\<close>, \<^verbatim>\<open>all\<close>.
\<close>

datatype 'p collection_op = CollectionOp (collection: string) (payload: 'p)

datatype filter1 = Filter1
  (raw1: "string option")
  (and1: "filter1 list option")
  (or1: "filter1 list option")
  (not1: "filter1 option")
  (eq1: "entries option")
  (ne1: "entries option")
  (gt1: "entries option")
  (ge1: "entries option")
  (lt1: "entries option")
  (le1: "entries option")
  (contains1: "entries option")
  (startsWith1: "entries option")
  (endsWith1: "entries option")
  (any1: "filter1 collection_op option")
  (all1: "filter1 collection_op option")

datatype filter2 = Filter2
  (raw2: "string option")
  (and2: "filter2 list option")
  (or2: "filter2 list option")
  (not2: "filter2 option")
  (eq2: "entries option")
  (ne2: "entries option")
  (gt2: "entries option")
  (ge2: "entries option")
  (lt2: "entries option")
  (le2: "entries option")
  (contains2: "entries option")
  (startsWith2: "entries option")
  (endsWith2: "entries option")
  (any2: "string collection_op option")
  (all2: "string collection_op option")

section \<open>formatValue (the same text in both revisions)\<close>

fun toISOString :: "string option \<Rightarrow> string result" where
  "toISOString None = Inl RangeError"
| "toISOString (Some t) = Inr t"

fun formatValue :: "jsvalue \<Rightarrow> string result" where
  "formatValue (JString v) = Inr ([quote] @ replaceAll quote [quote, quote] v @ [quote])"
| "formatValue (JDate d) = toISOString d"
| "formatValue (JBoolean b) = Inr (if b then ''true'' else ''false'')"
| "formatValue JNull = Inr ''null''"
| "formatValue JUndefined = Inr ''null''"
| "formatValue (JOther x) = Inr (String (JOther x))"

section \<open>The translator of \<^verbatim>\<open>src/unnamed/part_001\<close>\<close>

text \<open>
  \<^verbatim>\<open>translateFilter\<close> pushes onto the local array \<^verbatim>\<open>conditions\<close>, one optional
  field after the other; the model threads the array through the statements with
  \<open>andThen\<close>, since each of them may throw. The recursive calls are written with the
  map functions of the container types: \<open>map_option (map translateFilter1) ands\<close>
  holds the calls \<^verbatim>\<open>this.translateFilter(f)\<close> of
  \<^verbatim>\<open>filter.and.map(f => this.translateFilter(f))\<close> when the field is present, and
  \<open>mapM id\<close> runs them in order; \<open>map_option translateFilter1 nots\<close> is the call on
  the child of \<^verbatim>\<open>not\<close>, and \<open>map_collection_op translateFilter1\<close> the call on the
  \<^verbatim>\<open>filter\<close> member of \<^verbatim>\<open>any\<close> and \<^verbatim>\<open>all\<close>. An array and an object are always
  truthy, \<^verbatim>\<open>Boolean\<close> of a string is false exactly on the empty string.
\<close>

definition escapeFieldName1 :: "string \<Rightarrow> string" where
  "escapeFieldName1 field =
     (if includes_char field CHR ''/'' \<or> includes_char field CHR '' '' \<or> includes_char field CHR ''-''
      then [quote] @ field @ [quote]
      else field)"

definition translateComparison1 :: "entries \<Rightarrow> string \<Rightarrow> string list result" where
  "translateComparison1 comparison operator =
     mapM (\<lambda>(field, v).
             andThen (formatValue v) (\<lambda>formattedValue.
             Inr (escapeFieldName1 field @ '' '' @ operator @ '' '' @ formattedValue)))
          comparison"

definition translateStringOperation1 :: "entries \<Rightarrow> string \<Rightarrow> string list result" where
  "translateStringOperation1 operation functionName =
     mapM (\<lambda>(field, v).
             let escapedField = escapeFieldName1 field
             in andThen (formatValue v) (\<lambda>formattedValue.
                Inr (if functionName = ''contains''
                     then ''search.ismatch('' @ formattedValue @ '', '' @ [quote] @ field @ [quote] @ '')''
                     else functionName @ ''('' @ escapedField @ '', '' @ formattedValue @ '')'')))
          operation"

primrec translateFilter1 :: "filter1 \<Rightarrow> string result" where
  "translateFilter1 (Filter1 raw ands ors nots eq ne gt ge lt le cont startsWith endsWith anys alls) =
    (let conditions = [] in
     andThen (case map_option (map translateFilter1) ands of None \<Rightarrow> Inr conditions
              | Some calls \<Rightarrow>
                 andThen (mapM id calls) (\<lambda>translated.
                 let andConditions = filter (\<lambda>s. s \<noteq> []) translated
                 in Inr (if length andConditions > 0
                         then conditions @ [''('' @ join '' and '' andConditions @ '')'']
                         else conditions)))
       (\<lambda>conditions.
     andThen (case map_option (map translateFilter1) ors of None \<Rightarrow> Inr conditions
              | Some calls \<Rightarrow>
                 andThen (mapM id calls) (\<lambda>translated.
                 let orConditions = filter (\<lambda>s. s \<noteq> []) translated
                 in Inr (if length orConditions > 0
                         then conditions @ [''('' @ join '' or '' orConditions @ '')'']
                         else conditions)))
       (\<lambda>conditions.
     andThen (case map_option translateFilter1 nots of None \<Rightarrow> Inr conditions
              | Some call \<Rightarrow>
                 andThen call (\<lambda>notCondition.
                 Inr (if notCondition \<noteq> []
                      then conditions @ [''not ('' @ notCondition @ '')'']
                      else conditions)))
       (\<lambda>conditions.
     andThen (case eq of None \<Rightarrow> Inr conditions
              | Some c \<Rightarrow> andThen (translateComparison1 c ''eq'') (\<lambda>pushed. Inr (conditions @ pushed)))
       (\<lambda>conditions.
     andThen (case ne of None \<Rightarrow> Inr conditions
              | Some c \<Rightarrow> andThen (translateComparison1 c ''ne'') (\<lambda>pushed. Inr (conditions @ pushed)))
       (\<lambda>conditions.
     andThen (case gt of None \<Rightarrow> Inr conditions
              | Some c \<Rightarrow> andThen (translateComparison1 c ''gt'') (\<lambda>pushed. Inr (conditions @ pushed)))
       (\<lambda>conditions.
     andThen (case ge of None \<Rightarrow> Inr conditions
              | Some c \<Rightarrow> andThen (translateComparison1 c ''ge'') (\<lambda>pushed. Inr (conditions @ pushed)))
       (\<lambda>conditions.
     andThen (case lt of None \<Rightarrow> Inr conditions
              | Some c \<Rightarrow> andThen (translateComparison1 c ''lt'') (\<lambda>pushed. Inr (conditions @ pushed)))
       (\<lambda>conditions.
     andThen (case le of None \<Rightarrow> Inr conditions
              | Some c \<Rightarrow> andThen (translateComparison1 c ''le'') (\<lambda>pushed. Inr (conditions @ pushed)))
       (\<lambda>conditions.
     andThen (case cont of None \<Rightarrow> Inr conditions
              | Some c \<Rightarrow>
                 andThen (translateStringOperation1 c ''contains'') (\<lambda>pushed. Inr (conditions @ pushed)))
       (\<lambda>conditions.
     andThen (case startsWith of None \<Rightarrow> Inr conditions
              | Some c \<Rightarrow>
                 andThen (translateStringOperation1 c ''startswith'') (\<lambda>pushed. Inr (conditions @ pushed)))
       (\<lambda>conditions.
     andThen (case endsWith of None \<Rightarrow> Inr conditions
              | Some c \<Rightarrow>
                 andThen (translateStringOperation1 c ''endswith'') (\<lambda>pushed. Inr (conditions @ pushed)))
       (\<lambda>conditions.
     andThen (case map_option (map_collection_op translateFilter1) anys of None \<Rightarrow> Inr conditions
              | Some (CollectionOp coll call) \<Rightarrow>
                 andThen call (\<lambda>anyFilter.
                 Inr (if anyFilter \<noteq> []
                      then conditions @ [coll @ ''/any(x: '' @ anyFilter @ '')'']
                      else conditions)))
       (\<lambda>conditions.
     andThen (case map_option (map_collection_op translateFilter1) alls of None \<Rightarrow> Inr conditions
              | Some (CollectionOp coll call) \<Rightarrow>
                 andThen call (\<lambda>allFilter.
                 Inr (if allFilter \<noteq> []
                      then conditions @ [coll @ ''/all(x: '' @ allFilter @ '')'']
                      else conditions)))
       (\<lambda>conditions.
     Inr (join '' and '' conditions))))))))))))))))"

text \<open>\<^verbatim>\<open>translate\<close>: the argument \<open>None\<close> is an absent (undefined) filter, the result
  \<open>Inr None\<close> is \<^verbatim>\<open>undefined\<close>.\<close>

fun translate1 :: "filter1 option \<Rightarrow> string option result" where
  "translate1 None = Inr None"
| "translate1 (Some f) =
     (if truthy (raw1 f) then Inr (raw1 f)
      else andThen (translateFilter1 f) (\<lambda>translated. Inr (Some translated)))"

section \<open>The translator of \<^verbatim>\<open>src/unnamed/part_002\<close>\<close>

definition escapeFieldName2 :: "string \<Rightarrow> string" where
  "escapeFieldName2 field = field"

definition translateComparison2 :: "entries \<Rightarrow> string \<Rightarrow> string list result" where
  "translateComparison2 comparison operator =
     mapM (\<lambda>(field, v).
             andThen (formatValue v) (\<lambda>formattedValue.
             Inr (escapeFieldName2 field @ '' '' @ operator @ '' '' @ formattedValue)))
          comparison"

definition translateStringOperation2 :: "entries \<Rightarrow> string \<Rightarrow> string list result" where
  "translateStringOperation2 operation functionName =
     mapM (\<lambda>(field, v).
             let escapedField = escapeFieldName2 field
             in andThen (formatValue v) (\<lambda>formattedValue.
                Inr (if functionName = ''contains''
                     then ''search.ismatch('' @ formattedValue @ '', '' @ [quote] @ field @ [quote] @ '')''
                     else functionName @ ''('' @ escapedField @ '', '' @ formattedValue @ '')'')))
          operation"

primrec translateFilter2 :: "filter2 \<Rightarrow> string result" where
  "translateFilter2 (Filter2 raw ands ors nots eq ne gt ge lt le cont startsWith endsWith anys alls) =
    (let conditions = [] in
     andThen (case map_option (map translateFilter2) ands of None \<Rightarrow> Inr conditions
              | Some calls \<Rightarrow>
                 andThen (mapM id calls) (\<lambda>translated.
                 let andConditions = filter (\<lambda>s. s \<noteq> []) translated
                 in Inr (if length andConditions > 0
                         then conditions @ [''('' @ join '' and '' andConditions @ '')'']
                         else conditions)))
       (\<lambda>conditions.
     andThen (case map_option (map translateFilter2) ors of None \<Rightarrow> Inr conditions
              | Some calls \<Rightarrow>
                 andThen (mapM id calls) (\<lambda>translated.
                 let orConditions = filter (\<lambda>s. s \<noteq> []) translated
                 in Inr (if length orConditions > 0
                         then conditions @ [''('' @ join '' or '' orConditions @ '')'']
                         else conditions)))
       (\<lambda>conditions.
     andThen (case map_option translateFilter2 nots of None \<Rightarrow> Inr conditions
              | Some call \<Rightarrow>
                 andThen call (\<lambda>notCondition.
                 Inr (if notCondition \<noteq> []
                      then conditions @ [''not ('' @ notCondition @ '')'']
                      else conditions)))
       (\<lambda>conditions.
     andThen (case eq of None \<Rightarrow> Inr conditions
              | Some c \<Rightarrow> andThen (translateComparison2 c ''eq'') (\<lambda>pushed. Inr (conditions @ pushed)))
       (\<lambda>conditions.
     andThen (case ne of None \<Rightarrow> Inr conditions
              | Some c \<Rightarrow> andThen (translateComparison2 c ''ne'') (\<lambda>pushed. Inr (conditions @ pushed)))
       (\<lambda>conditions.
     andThen (case gt of None \<Rightarrow> Inr conditions
              | Some c \<Rightarrow> andThen (translateComparison2 c ''gt'') (\<lambda>pushed. Inr (conditions @ pushed)))
       (\<lambda>conditions.
     andThen (case ge of None \<Rightarrow> Inr conditions
              | Some c \<Rightarrow> andThen (translateComparison2 c ''ge'') (\<lambda>pushed. Inr (conditions @ pushed)))
       (\<lambda>conditions.
     andThen (case lt of None \<Rightarrow> Inr conditions
              | Some c \<Rightarrow> andThen (translateComparison2 c ''lt'') (\<lambda>pushed. Inr (conditions @ pushed)))
       (\<lambda>conditions.
     andThen (case le of None \<Rightarrow> Inr conditions
              | Some c \<Rightarrow> andThen (translateComparison2 c ''le'') (\<lambda>pushed. Inr (conditions @ pushed)))
       (\<lambda>conditions.
     andThen (case cont of None \<Rightarrow> Inr conditions
              | Some c \<Rightarrow>
                 andThen (translateStringOperation2 c ''contains'') (\<lambda>pushed. Inr (conditions @ pushed)))
       (\<lambda>conditions.
     andThen (case startsWith of None \<Rightarrow> Inr conditions
              | Some c \<Rightarrow>
                 andThen (translateStringOperation2 c ''startswith'') (\<lambda>pushed. Inr (conditions @ pushed)))
       (\<lambda>conditions.
     andThen (case endsWith of None \<Rightarrow> Inr conditions
              | Some c \<Rightarrow>
                 andThen (translateStringOperation2 c ''endswith'') (\<lambda>pushed. Inr (conditions @ pushed)))
       (\<lambda>conditions.
     andThen (case anys of None \<Rightarrow> Inr conditions
              | Some q \<Rightarrow> Inr (conditions @ [collection q @ ''/any('' @ payload q @ '')'']))
       (\<lambda>conditions.
     andThen (case alls of None \<Rightarrow> Inr conditions
              | Some q \<Rightarrow> Inr (conditions @ [collection q @ ''/all('' @ payload q @ '')'']))
       (\<lambda>conditions.
     Inr (join '' and '' conditions))))))))))))))))"

fun translate2 :: "filter2 option \<Rightarrow> string option result" where
  "translate2 None = Inr None"
| "translate2 (Some f) =
     (if truthy (raw2 f) then Inr (raw2 f)
      else andThen (translateFilter2 f) (\<lambda>rendering.
           let translated = trim rendering
           in Inr (if length translated > 0 then Some translated else None)))"

section \<open>Auxiliary definitions for the statements\<close>

text \<open>
  The text of a result (empty when it is a throw) and whether a computation returns.
  An entries list is valid when none of its values is an invalid date, and a filter of
  part_002 is valid when this holds of every mapping in it and in the filters below it:
  \<open>returns_translateFilter2\<close> shows that these are the filters on which
  \<^verbatim>\<open>translateFilter\<close> returns.
\<close>

definition textOf :: "string result \<Rightarrow> string" where
  "textOf r = (case r of Inl e \<Rightarrow> [] | Inr s \<Rightarrow> s)"

definition returns :: "'a result \<Rightarrow> bool" where
  "returns r = (case r of Inl e \<Rightarrow> False | Inr x \<Rightarrow> True)"

definition allReturn :: "string result list option \<Rightarrow> bool" where
  "allReturn calls = (case calls of None \<Rightarrow> True | Some rs \<Rightarrow> list_all returns rs)"

definition oneReturns :: "string result option \<Rightarrow> bool" where
  "oneReturns call = (case call of None \<Rightarrow> True | Some r \<Rightarrow> returns r)"

definition quantReturns :: "string result collection_op option \<Rightarrow> bool" where
  "quantReturns call = (case call of None \<Rightarrow> True | Some q \<Rightarrow> returns (payload q))"

definition entriesValid :: "entries \<Rightarrow> bool" where
  "entriesValid es = list_all (\<lambda>(field, v). v \<noteq> JDate None) es"

definition optionValid :: "entries option \<Rightarrow> bool" where
  "optionValid x = (case x of None \<Rightarrow> True | Some es \<Rightarrow> entriesValid es)"

primrec valid2 :: "filter2 \<Rightarrow> bool" where
  "valid2 (Filter2 raw ands ors nots eq ne gt ge lt le cont startsWith endsWith anys alls) =
     ((case map_option (map valid2) ands of None \<Rightarrow> True | Some vs \<Rightarrow> list_all id vs)
      \<and> (case map_option (map valid2) ors of None \<Rightarrow> True | Some vs \<Rightarrow> list_all id vs)
      \<and> (case map_option valid2 nots of None \<Rightarrow> True | Some v \<Rightarrow> v)
      \<and> optionValid eq \<and> optionValid ne \<and> optionValid gt \<and> optionValid ge
      \<and> optionValid lt \<and> optionValid le
      \<and> optionValid cont \<and> optionValid startsWith \<and> optionValid endsWith)"

text \<open>
  The condition strings one optional field adds to \<^verbatim>\<open>conditions\<close>, as functions of the
  field (for \<^verbatim>\<open>and\<close>, \<^verbatim>\<open>or\<close>, \<^verbatim>\<open>not\<close> and the quantifiers of part_001: of the
  renderings of the children).
\<close>

definition logical :: "string \<Rightarrow> string list option \<Rightarrow> string list" where
  "logical sep rendered =
     (case rendered of None \<Rightarrow> []
      | Some r \<Rightarrow> (let survivors = filter (\<lambda>s. s \<noteq> []) r
                  in if length survivors > 0 then [''('' @ join sep survivors @ '')''] else []))"

definition negation :: "string option \<Rightarrow> string list" where
  "negation rendered =
     (case rendered of None \<Rightarrow> []
      | Some r \<Rightarrow> if r \<noteq> [] then [''not ('' @ r @ '')''] else [])"

definition optional :: "('a \<Rightarrow> string list) \<Rightarrow> 'a option \<Rightarrow> string list" where
  "optional g x = (case x of None \<Rightarrow> [] | Some v \<Rightarrow> g v)"

definition quantifier1 :: "string \<Rightarrow> string collection_op option \<Rightarrow> string list" where
  "quantifier1 name rendered =
     (case rendered of None \<Rightarrow> []
      | Some q \<Rightarrow> if payload q \<noteq> []
                  then [collection q @ ''/'' @ name @ ''(x: '' @ payload q @ '')'']
                  else [])"

text \<open>A string with a character that \<^verbatim>\<open>trim\<close> does not remove.\<close>

definition inked :: "string \<Rightarrow> bool" where
  "inked s = (\<exists>c\<in>set s. \<not> isWhiteSpace c)"

section \<open>The upsert operation of the adapter\<close>

text \<open>
  \<^verbatim>\<open>src/stores/aisearch/src/vector/index.ts\<close>: \<^verbatim>\<open>describeIndex\<close>,
  \<^verbatim>\<open>validateVectorDimensions\<close>, \<^verbatim>\<open>getVectorFieldName\<close> and \<^verbatim>\<open>upsert\<close>. The
  external service is a parameter: each of its three operations used here takes the
  state of the service and returns a result or a failure, and the next state. An
  operation of the adapter runs on a pair of the service calls made so far and the
  state of the service, so that the order of the calls can be read off the result.
  A thrown value is an \<open>error\<close>; a \<^verbatim>\<open>try\<close> block is a function with the suffix
  \<open>_try\<close>, and the function itself wraps what the block throws, as the \<^verbatim>\<open>catch\<close>
  clause does. Building a \<^verbatim>\<open>SearchClient\<close> (\<^verbatim>\<open>getSearchClient\<close>) calls no service
  and is left out, as are the \<^verbatim>\<open>details\<close> of a \<^verbatim>\<open>MastraError\<close>.
\<close>

datatype error =
    ServiceError string
  | VectorFieldNotFound
  | InvalidDimension nat nat "nat option"
  | DocumentsFailed nat nat
  | MastraError string error

record search_field =
  field_name :: string
  field_type :: string
  field_dimensions :: "nat option"
  field_vectorSearchDimensions :: "nat option"

text \<open>An index definition: \<^verbatim>\<open>index.fields\<close>, and \<^verbatim>\<open>index.vectorSearch?.algorithms\<close>
  with every algorithm given by its \<^verbatim>\<open>hnswParameters?.metric\<close>.\<close>

record search_index =
  index_fields :: "search_field list option"
  index_algorithms :: "string option list option"

record index_stats =
  stats_dimension :: "nat option"
  stats_count :: nat
  stats_metric :: string

text \<open>A metadata object, given by its \<^verbatim>\<open>JSON.stringify\<close> text and its \<^verbatim>\<open>content\<close>
  member.\<close>

record metadata_item =
  meta_stringify :: string
  meta_content :: "string option"

record 'n document =
  doc_id :: "string option"
  doc_vectorFieldName :: string
  doc_vector :: "'n list"
  doc_metadata :: string
  doc_content :: string

record indexing_result =
  succeeded :: bool

datatype 'n call =
    GetIndex string
  | GetDocumentsCount string
  | UploadDocuments string "'n document list"

record ('n, 'w) service =
  getIndex :: "string \<Rightarrow> 'w \<Rightarrow> (error + search_index) \<times> 'w"
  getDocumentsCount :: "string \<Rightarrow> 'w \<Rightarrow> (error + nat) \<times> 'w"
  uploadDocuments :: "string \<Rightarrow> 'n document list \<Rightarrow> 'w \<Rightarrow> (error + indexing_result list) \<times> 'w"

type_synonym ('n, 'w) world = "'n call list \<times> 'w"

definition call_getIndex ::
  "('n, 'w) service \<Rightarrow> string \<Rightarrow> ('n, 'w) world \<Rightarrow> (error + search_index) \<times> ('n, 'w) world" where
  "call_getIndex svc indexName s =
     (case getIndex svc indexName (snd s) of
        (r, w) \<Rightarrow> (r, (fst s @ [GetIndex indexName], w)))"

definition call_getDocumentsCount ::
  "('n, 'w) service \<Rightarrow> string \<Rightarrow> ('n, 'w) world \<Rightarrow> (error + nat) \<times> ('n, 'w) world" where
  "call_getDocumentsCount svc indexName s =
     (case getDocumentsCount svc indexName (snd s) of
        (r, w) \<Rightarrow> (r, (fst s @ [GetDocumentsCount indexName], w)))"

definition call_uploadDocuments ::
  "('n, 'w) service \<Rightarrow> string \<Rightarrow> 'n document list \<Rightarrow> ('n, 'w) world
     \<Rightarrow> (error + indexing_result list) \<times> ('n, 'w) world" where
  "call_uploadDocuments svc indexName documents s =
     (case uploadDocuments svc indexName documents (snd s) of
        (r, w) \<Rightarrow> (r, (fst s @ [UploadDocuments indexName documents], w)))"

text \<open>Truthiness of an optional number, \<^verbatim>\<open>a || b\<close> on two of them, \<^verbatim>\<open>xs[i]\<close> (undefined
  out of range) and \<^verbatim>\<open>index.fields?.find(p)\<close>.\<close>

fun truthy_num :: "nat option \<Rightarrow> bool" where
  "truthy_num None = False"
| "truthy_num (Some n) = (n \<noteq> 0)"

definition js_or :: "nat option \<Rightarrow> nat option \<Rightarrow> nat option" where
  "js_or a b = (if truthy_num a then a else b)"

fun at :: "'a list \<Rightarrow> nat \<Rightarrow> 'a option" where
  "at [] i = None"
| "at (x # xs) 0 = Some x"
| "at (x # xs) (Suc i) = at xs i"

definition find_field :: "(search_field \<Rightarrow> bool) \<Rightarrow> search_index \<Rightarrow> search_field option" where
  "find_field p index = (case index_fields index of None \<Rightarrow> None | Some fs \<Rightarrow> find p fs)"

definition isVectorField :: "search_field \<Rightarrow> bool" where
  "isVectorField field =
     (field_type field = ''Collection(Edm.Single)''
      \<and> (truthy_num (field_dimensions field) \<or> truthy_num (field_vectorSearchDimensions field)))"

definition METRIC_MAPPING :: "(string \<times> string) list" where
  "METRIC_MAPPING =
     [(''cosine'', ''cosine''), (''euclidean'', ''euclidean''), (''dotproduct'', ''dotProduct'')]"

definition describeIndex_try ::
  "('n, 'w) service \<Rightarrow> string \<Rightarrow> ('n, 'w) world \<Rightarrow> (error + index_stats) \<times> ('n, 'w) world" where
  "describeIndex_try svc indexName s =
     (case call_getIndex svc indexName s of
        (Inl e, s1) \<Rightarrow> (Inl e, s1)
      | (Inr index, s1) \<Rightarrow>
         (case call_getDocumentsCount svc indexName s1 of
            (Inl e, s2) \<Rightarrow> (Inl e, s2)
          | (Inr countResult, s2) \<Rightarrow>
             (case find_field isVectorField index of
                None \<Rightarrow>
                  (case find_field (\<lambda>field. field_name field = ''vector'') index of
                     None \<Rightarrow> (Inl VectorFieldNotFound, s2)
                   | Some defaultVectorField \<Rightarrow>
                       if truthy_num (field_dimensions defaultVectorField)
                          \<or> truthy_num (field_vectorSearchDimensions defaultVectorField)
                       then (Inr \<lparr>stats_dimension =
                                    js_or (field_dimensions defaultVectorField)
                                          (field_vectorSearchDimensions defaultVectorField),
                                  stats_count = countResult,
                                  stats_metric = ''cosine''\<rparr>, s2)
                       else (Inl VectorFieldNotFound, s2))
              | Some vectorField \<Rightarrow>
                  if \<not> truthy_num (field_dimensions vectorField)
                     \<and> \<not> truthy_num (field_vectorSearchDimensions vectorField)
                  then
                    (case find_field (\<lambda>field. field_name field = ''vector'') index of
                       None \<Rightarrow> (Inl VectorFieldNotFound, s2)
                     | Some defaultVectorField \<Rightarrow>
                         if truthy_num (field_dimensions defaultVectorField)
                            \<or> truthy_num (field_vectorSearchDimensions defaultVectorField)
                         then (Inr \<lparr>stats_dimension =
                                      js_or (field_dimensions defaultVectorField)
                                            (field_vectorSearchDimensions defaultVectorField),
                                    stats_count = countResult,
                                    stats_metric = ''cosine''\<rparr>, s2)
                         else (Inl VectorFieldNotFound, s2))
                  else
                    (let metric = ''cosine'';
                         metric =
                           (case index_algorithms index of
                              None \<Rightarrow> metric
                            | Some algorithms \<Rightarrow>
                               (case at algorithms 0 of
                                  Some (Some azureMetric) \<Rightarrow>
                                    if azureMetric \<noteq> []
                                    then (case find (\<lambda>(k, v). v = azureMetric) METRIC_MAPPING of
                                            Some metricEntry \<Rightarrow> fst metricEntry
                                          | None \<Rightarrow> metric)
                                    else metric
                                | _ \<Rightarrow> metric))
                     in (Inr \<lparr>stats_dimension =
                                js_or (field_dimensions vectorField)
                                      (field_vectorSearchDimensions vectorField),
                              stats_count = countResult,
                              stats_metric = metric\<rparr>, s2)))))"

definition describeIndex ::
  "('n, 'w) service \<Rightarrow> string \<Rightarrow> ('n, 'w) world \<Rightarrow> (error + index_stats) \<times> ('n, 'w) world" where
  "describeIndex svc indexName s =
     (case describeIndex_try svc indexName s of
        (Inl e, s') \<Rightarrow> (Inl (MastraError ''STORAGE_AZURE_AI_SEARCH_DESCRIBE_INDEX_FAILED'' e), s')
      | (Inr stats, s') \<Rightarrow> (Inr stats, s'))"

text \<open>The loop of \<^verbatim>\<open>validateVectorDimensions\<close>, from index \<open>i\<close> on: the first vector
  whose length is not the dimension throws.\<close>

fun validateFrom :: "nat \<Rightarrow> 'n list list \<Rightarrow> nat option \<Rightarrow> error + unit" where
  "validateFrom i [] dimension = Inr ()"
| "validateFrom i (v # vs) dimension =
     (if Some (length v) \<noteq> dimension
      then Inl (InvalidDimension i (length v) dimension)
      else validateFrom (Suc i) vs dimension)"

definition validateVectorDimensions :: "'n list list \<Rightarrow> nat option \<Rightarrow> error + unit" where
  "validateVectorDimensions vectors dimension = validateFrom 0 vectors dimension"

definition getVectorFieldName ::
  "('n, 'w) service \<Rightarrow> string \<Rightarrow> ('n, 'w) world \<Rightarrow> string \<times> ('n, 'w) world" where
  "getVectorFieldName svc indexName s =
     (case call_getIndex svc indexName s of
        (Inl e, s1) \<Rightarrow> (''vector'', s1)
      | (Inr index, s1) \<Rightarrow>
         (case find_field isVectorField index of
            None \<Rightarrow> (''vector'', s1)
          | Some vectorField \<Rightarrow>
              (if field_name vectorField \<noteq> [] then field_name vectorField else ''vector'', s1)))"

text \<open>\<^verbatim>\<open>upsert\<close>. The argument \<open>uuids\<close> gives the results of the successive calls of
  \<^verbatim>\<open>crypto.randomUUID()\<close>; \<open>ids = None\<close> is an absent \<^verbatim>\<open>ids\<close>.\<close>

definition upsert_try ::
  "('n, 'w) service \<Rightarrow> (nat \<Rightarrow> string) \<Rightarrow> string \<Rightarrow> 'n list list \<Rightarrow> metadata_item list
     \<Rightarrow> string list option \<Rightarrow> ('n, 'w) world \<Rightarrow> (error + string list) \<times> ('n, 'w) world" where
  "upsert_try svc uuids indexName vectors metadata ids s =
     (case describeIndex svc indexName s of
        (Inl e, s1) \<Rightarrow> (Inl e, s1)
      | (Inr indexInfo, s1) \<Rightarrow>
         (case validateVectorDimensions vectors (stats_dimension indexInfo) of
            Inl e \<Rightarrow> (Inl e, s1)
          | Inr u \<Rightarrow>
             (case getVectorFieldName svc indexName s1 of
                (vectorFieldName, s2) \<Rightarrow>
                 (let vectorIds = (case ids of Some given \<Rightarrow> given
                                   | None \<Rightarrow> map uuids [0..<length vectors]);
                      documents =
                        map (\<lambda>(vector, i).
                               \<lparr>doc_id = at vectorIds i,
                                doc_vectorFieldName = vectorFieldName,
                                doc_vector = vector,
                                doc_metadata = (case at metadata i of None \<Rightarrow> ''{}''
                                                | Some m \<Rightarrow> meta_stringify m),
                                doc_content = (case at metadata i of None \<Rightarrow> []
                                               | Some m \<Rightarrow>
                                                  (case meta_content m of None \<Rightarrow> []
                                                   | Some c \<Rightarrow> c))\<rparr>)
                            (zip vectors [0..<length vectors])
                  in (case call_uploadDocuments svc indexName documents s2 of
                        (Inl e, s3) \<Rightarrow> (Inl e, s3)
                      | (Inr results, s3) \<Rightarrow>
                         (let failures = filter (\<lambda>result. \<not> succeeded result) results
                          in if length failures > 0
                             then (Inl (MastraError ''STORAGE_AZURE_AI_SEARCH_UPSERT_PARTIAL_FAILURE''
                                          (DocumentsFailed (length failures) (length results))), s3)
                             else (Inr vectorIds, s3)))))))"

definition upsert ::
  "('n, 'w) service \<Rightarrow> (nat \<Rightarrow> string) \<Rightarrow> string \<Rightarrow> 'n list list \<Rightarrow> metadata_item list
     \<Rightarrow> string list option \<Rightarrow> ('n, 'w) world \<Rightarrow> (error + string list) \<times> ('n, 'w) world" where
  "upsert svc uuids indexName vectors metadata ids s =
     (case upsert_try svc uuids indexName vectors metadata ids s of
        (Inl e, s') \<Rightarrow> (Inl (MastraError ''STORAGE_AZURE_AI_SEARCH_UPSERT_FAILED'' e), s')
      | (Inr vectorIds, s') \<Rightarrow> (Inr vectorIds, s'))"

section \<open>A service double\<close>

text \<open>
  A service double, as the unit tests set one up with mocks: the index \<^verbatim>\<open>test-index\<close>
  has a vector field of dimension 3 and 100 documents, every upload succeeds, and the
  service has no state.
\<close>

definition mock_getIndex :: "string \<Rightarrow> unit \<Rightarrow> (error + search_index) \<times> unit" where
  "mock_getIndex indexName w =
     (Inr \<lparr>index_fields =
             Some [\<lparr>field_name = ''id'', field_type = ''Edm.String'',
                    field_dimensions = None, field_vectorSearchDimensions = None\<rparr>,
                   \<lparr>field_name = ''vector'', field_type = ''Collection(Edm.Single)'',
                    field_dimensions = None, field_vectorSearchDimensions = Some 3\<rparr>],
           index_algorithms = Some [Some ''cosine'']\<rparr>, w)"

definition mock_getDocumentsCount :: "string \<Rightarrow> unit \<Rightarrow> (error + nat) \<times> unit" where
  "mock_getDocumentsCount indexName w = (Inr 100, w)"

definition mock_uploadDocuments ::
  "string \<Rightarrow> nat document list \<Rightarrow> unit \<Rightarrow> (error + indexing_result list) \<times> unit" where
  "mock_uploadDocuments indexName documents w =
     (Inr (replicate (length documents) \<lparr>succeeded = True\<rparr>), w)"

definition mockService :: "(nat, unit) service" where
  "mockService = \<lparr>getIndex = mock_getIndex, getDocumentsCount = mock_getDocumentsCount,
                  uploadDocuments = mock_uploadDocuments\<rparr>"

definition mock_randomUUID :: "nat \<Rightarrow> string" where
  "mock_randomUUID i = ''generated-id''"

section \<open>Joining condition strings\<close>

lemma join_append:
  "xs \<noteq> [] \<Longrightarrow> ys \<noteq> [] \<Longrightarrow> join sep (xs @ ys) = join sep xs @ sep @ join sep ys"
proof (induction sep xs rule: join.induct)
  case (1 sep)
  then show ?case by simp
next
  case (2 sep x)
  then show ?case by (cases ys) simp_all
next
  case (3 sep x y zs)
  then show ?case by simp
qed

lemma join_eq_Nil_iff:
  "\<forall>x\<in>set xs. x \<noteq> [] \<Longrightarrow> join sep xs = [] \<longleftrightarrow> xs = []"
  by (induction sep xs rule: join.induct) simp_all

section \<open>Results\<close>

lemma js_error_unique: "(e::js_error) = RangeError"
  by (cases e) simp

lemma andThen_Inr [simp]: "andThen (Inr x) k = k x"
  by (simp add: andThen_def)

lemma andThen_Inl [simp]: "andThen (Inl e) k = Inl e"
  by (simp add: andThen_def)

lemma andThen_if: "andThen (if a then Inr x else Inl RangeError) k = (if a then k x else Inl RangeError)"
  by simp

lemma if_merge:
  "(if a then (if b then x else Inl RangeError) else Inl RangeError)
     = (if a \<and> b then x else Inl RangeError)"
  by simp

lemma result_cases: "r = (if returns r then Inr (textOf r) else Inl RangeError)"
  by (cases r) (simp_all add: returns_def textOf_def js_error_unique)

lemma mapM_id_results:
  "mapM id rs = (if list_all returns rs then Inr (map textOf rs) else Inl RangeError)"
proof (induction rs)
  case Nil
  then show ?case by simp
next
  case (Cons r rs)
  show ?case
    by (cases r) (simp_all add: Cons.IH [unfolded id_def] returns_def textOf_def js_error_unique)
qed

lemma mapM_if:
  "mapM (\<lambda>x. if ok x then Inr (p x) else Inl RangeError) xs
     = (if list_all ok xs then Inr (map p xs) else Inl RangeError)"
  by (induction xs) simp_all

lemma mapM_id_map: "mapM id (map g xs) = mapM g xs"
  by (induction xs) simp_all

lemma mapM_Inr:
  "mapM g xs = Inr rs \<Longrightarrow> list_all returns (map g xs) \<and> map textOf (map g xs) = rs"
proof (induction xs arbitrary: rs)
  case Nil
  then show ?case by simp
next
  case (Cons x xs)
  show ?case
  proof (cases "g x")
    case (Inl e)
    then show ?thesis using Cons.prems by simp
  next
    case gx: (Inr y)
    show ?thesis
    proof (cases "mapM g xs")
      case (Inl e)
      then show ?thesis using Cons.prems gx by simp
    next
      case (Inr ys)
      then show ?thesis
        using Cons.prems gx Cons.IH [OF Inr] by (auto simp: returns_def textOf_def)
    qed
  qed
qed

lemma formatValue_cases:
  "formatValue v = (if v \<noteq> JDate None then Inr (textOf (formatValue v)) else Inl RangeError)"
proof (cases v)
  case (JDate d)
  then show ?thesis by (cases d) (simp_all add: textOf_def)
qed (simp_all add: textOf_def)

lemma returns_if [simp]: "returns (if a then Inr x else Inl RangeError) = a"
  by (simp add: returns_def)

lemma mapM_entries:
  "mapM (\<lambda>(field, v). andThen (formatValue v) (\<lambda>t. Inr (h field t))) c =
     (if entriesValid c
      then Inr (map (\<lambda>(field, v). h field (textOf (formatValue v))) c)
      else Inl RangeError)"
proof -
  have "(\<lambda>(field, v). andThen (formatValue v) (\<lambda>t. Inr (h field t)))
      = (\<lambda>x. if (case x of (field, v) \<Rightarrow> v \<noteq> JDate None)
              then Inr (case x of (field, v) \<Rightarrow> h field (textOf (formatValue v)))
              else Inl RangeError)"
    by (rule ext) (auto simp: formatValue_cases [of "JDate None"] split: prod.splits,
        subst formatValue_cases, simp)
  then show ?thesis
    unfolding entriesValid_def by (simp only: mapM_if)
qed

lemma translateComparison1_cases:
  "translateComparison1 c op =
     (if entriesValid c
      then Inr (map (\<lambda>(field, v). escapeFieldName1 field @ '' '' @ op @ '' '' @ textOf (formatValue v)) c)
      else Inl RangeError)"
  unfolding translateComparison1_def by (rule mapM_entries)

lemma translateComparison2_cases:
  "translateComparison2 c op =
     (if entriesValid c
      then Inr (map (\<lambda>(field, v). field @ '' '' @ op @ '' '' @ textOf (formatValue v)) c)
      else Inl RangeError)"
  unfolding translateComparison2_def escapeFieldName2_def by (rule mapM_entries)

lemma translateStringOperation1_cases:
  "translateStringOperation1 c fn =
     (if entriesValid c
      then Inr (map (\<lambda>(field, v).
                  if fn = ''contains''
                  then ''search.ismatch('' @ textOf (formatValue v) @ '', '' @ [quote] @ field @ [quote] @ '')''
                  else fn @ ''('' @ escapeFieldName1 field @ '', '' @ textOf (formatValue v) @ '')'') c)
      else Inl RangeError)"
  unfolding translateStringOperation1_def Let_def by (rule mapM_entries)

lemma translateStringOperation2_cases:
  "translateStringOperation2 c fn =
     (if entriesValid c
      then Inr (map (\<lambda>(field, v).
                  if fn = ''contains''
                  then ''search.ismatch('' @ textOf (formatValue v) @ '', '' @ [quote] @ field @ [quote] @ '')''
                  else fn @ ''('' @ field @ '', '' @ textOf (formatValue v) @ '')'') c)
      else Inl RangeError)"
  unfolding translateStringOperation2_def Let_def escapeFieldName2_def by (rule mapM_entries)

section \<open>The conditions of a node, field by field\<close>

lemma step_logical:
  "(case y of None \<Rightarrow> Inr cs
    | Some calls \<Rightarrow>
       andThen (mapM id calls) (\<lambda>translated.
         let a = filter (\<lambda>s. s \<noteq> []) translated
         in Inr (if length a > 0 then cs @ [''('' @ join sep a @ '')''] else cs)))
   = (if allReturn y then Inr (cs @ logical sep (map_option (map textOf) y)) else Inl RangeError)"
  by (cases y) (simp_all add: allReturn_def logical_def mapM_id_results Let_def)

lemma step_negation:
  "(case y of None \<Rightarrow> Inr cs
    | Some call \<Rightarrow>
       andThen call (\<lambda>n. Inr (if n \<noteq> [] then cs @ [''not ('' @ n @ '')''] else cs)))
   = (if oneReturns y then Inr (cs @ negation (map_option textOf y)) else Inl RangeError)"
proof (cases y)
  case None
  then show ?thesis by (simp add: oneReturns_def negation_def)
next
  case (Some r)
  then show ?thesis
    by (cases r) (simp_all add: oneReturns_def negation_def returns_def textOf_def js_error_unique)
qed

lemma step_entries:
  "(case x of None \<Rightarrow> Inr cs
    | Some c \<Rightarrow> andThen (if entriesValid c then Inr (p c) else Inl RangeError)
                 (\<lambda>pushed. Inr (cs @ pushed)))
   = (if optionValid x then Inr (cs @ optional p x) else Inl RangeError)"
  by (cases x) (simp_all add: optionValid_def optional_def)

lemma step_quantifier2:
  "(case x of None \<Rightarrow> Inr cs | Some q \<Rightarrow> Inr (cs @ [g q]))
   = Inr (cs @ optional (\<lambda>q. [g q]) x)"
  by (cases x) (simp_all add: optional_def)

lemma step_any1:
  "(case y of None \<Rightarrow> Inr cs
    | Some (CollectionOp coll call) \<Rightarrow>
       andThen call (\<lambda>a. Inr (if a \<noteq> [] then cs @ [coll @ ''/any(x: '' @ a @ '')''] else cs)))
   = (if quantReturns y
      then Inr (cs @ quantifier1 ''any'' (map_option (map_collection_op textOf) y))
      else Inl RangeError)"
proof (cases y)
  case None
  then show ?thesis by (simp add: quantReturns_def quantifier1_def)
next
  case (Some q)
  then show ?thesis
    by (cases q; cases "payload q")
      (simp_all add: quantReturns_def quantifier1_def returns_def textOf_def js_error_unique)
qed

lemma step_all1:
  "(case y of None \<Rightarrow> Inr cs
    | Some (CollectionOp coll call) \<Rightarrow>
       andThen call (\<lambda>a. Inr (if a \<noteq> [] then cs @ [coll @ ''/all(x: '' @ a @ '')''] else cs)))
   = (if quantReturns y
      then Inr (cs @ quantifier1 ''all'' (map_option (map_collection_op textOf) y))
      else Inl RangeError)"
proof (cases y)
  case None
  then show ?thesis by (simp add: quantReturns_def quantifier1_def)
next
  case (Some q)
  then show ?thesis
    by (cases q; cases "payload q")
      (simp_all add: quantReturns_def quantifier1_def returns_def textOf_def js_error_unique)
qed

lemma translateFilter1_conditions:
  "translateFilter1 (Filter1 raw ands ors nots eq ne gt ge lt le cont startsWith endsWith anys alls) =
     (if allReturn (map_option (map translateFilter1) ands)
         \<and> allReturn (map_option (map translateFilter1) ors)
         \<and> oneReturns (map_option translateFilter1 nots)
         \<and> optionValid eq \<and> optionValid ne \<and> optionValid gt \<and> optionValid ge
         \<and> optionValid lt \<and> optionValid le
         \<and> optionValid cont \<and> optionValid startsWith \<and> optionValid endsWith
         \<and> quantReturns (map_option (map_collection_op translateFilter1) anys)
         \<and> quantReturns (map_option (map_collection_op translateFilter1) alls)
      then Inr (join '' and ''
       (concat
         [logical '' and '' (map_option (map textOf) (map_option (map translateFilter1) ands)),
          logical '' or '' (map_option (map textOf) (map_option (map translateFilter1) ors)),
          negation (map_option textOf (map_option translateFilter1 nots)),
          optional (map (\<lambda>(field, v). escapeFieldName1 field @ '' '' @ ''eq'' @ '' '' @ textOf (formatValue v))) eq,
          optional (map (\<lambda>(field, v). escapeFieldName1 field @ '' '' @ ''ne'' @ '' '' @ textOf (formatValue v))) ne,
          optional (map (\<lambda>(field, v). escapeFieldName1 field @ '' '' @ ''gt'' @ '' '' @ textOf (formatValue v))) gt,
          optional (map (\<lambda>(field, v). escapeFieldName1 field @ '' '' @ ''ge'' @ '' '' @ textOf (formatValue v))) ge,
          optional (map (\<lambda>(field, v). escapeFieldName1 field @ '' '' @ ''lt'' @ '' '' @ textOf (formatValue v))) lt,
          optional (map (\<lambda>(field, v). escapeFieldName1 field @ '' '' @ ''le'' @ '' '' @ textOf (formatValue v))) le,
          optional (map (\<lambda>(field, v).
             if ''contains'' = ''contains''
             then ''search.ismatch('' @ textOf (formatValue v) @ '', '' @ [quote] @ field @ [quote] @ '')''
             else ''contains'' @ ''('' @ escapeFieldName1 field @ '', '' @ textOf (formatValue v) @ '')'')) cont,
          optional (map (\<lambda>(field, v).
             if ''startswith'' = ''contains''
             then ''search.ismatch('' @ textOf (formatValue v) @ '', '' @ [quote] @ field @ [quote] @ '')''
             else ''startswith'' @ ''('' @ escapeFieldName1 field @ '', '' @ textOf (formatValue v) @ '')'')) startsWith,
          optional (map (\<lambda>(field, v).
             if ''endswith'' = ''contains''
             then ''search.ismatch('' @ textOf (formatValue v) @ '', '' @ [quote] @ field @ [quote] @ '')''
             else ''endswith'' @ ''('' @ escapeFieldName1 field @ '', '' @ textOf (formatValue v) @ '')'')) endsWith,
          quantifier1 ''any'' (map_option (map_collection_op textOf)
             (map_option (map_collection_op translateFilter1) anys)),
          quantifier1 ''all'' (map_option (map_collection_op textOf)
             (map_option (map_collection_op translateFilter1) alls))]))
      else Inl RangeError)"
  apply (simp only: translateFilter1.simps translateComparison1_cases
      translateStringOperation1_cases step_logical step_negation step_entries step_any1 step_all1)
  apply (simp only: Let_def andThen_if andThen_Inr if_merge append_Nil append_Nil2 append_assoc
      concat.simps conj_assoc)
  done

lemma translateFilter2_conditions:
  "translateFilter2 (Filter2 raw ands ors nots eq ne gt ge lt le cont startsWith endsWith anys alls) =
     (if allReturn (map_option (map translateFilter2) ands)
         \<and> allReturn (map_option (map translateFilter2) ors)
         \<and> oneReturns (map_option translateFilter2 nots)
         \<and> optionValid eq \<and> optionValid ne \<and> optionValid gt \<and> optionValid ge
         \<and> optionValid lt \<and> optionValid le
         \<and> optionValid cont \<and> optionValid startsWith \<and> optionValid endsWith
      then Inr (join '' and ''
       (concat
         [logical '' and '' (map_option (map textOf) (map_option (map translateFilter2) ands)),
          logical '' or '' (map_option (map textOf) (map_option (map translateFilter2) ors)),
          negation (map_option textOf (map_option translateFilter2 nots)),
          optional (map (\<lambda>(field, v). field @ '' '' @ ''eq'' @ '' '' @ textOf (formatValue v))) eq,
          optional (map (\<lambda>(field, v). field @ '' '' @ ''ne'' @ '' '' @ textOf (formatValue v))) ne,
          optional (map (\<lambda>(field, v). field @ '' '' @ ''gt'' @ '' '' @ textOf (formatValue v))) gt,
          optional (map (\<lambda>(field, v). field @ '' '' @ ''ge'' @ '' '' @ textOf (formatValue v))) ge,
          optional (map (\<lambda>(field, v). field @ '' '' @ ''lt'' @ '' '' @ textOf (formatValue v))) lt,
          optional (map (\<lambda>(field, v). field @ '' '' @ ''le'' @ '' '' @ textOf (formatValue v))) le,
          optional (map (\<lambda>(field, v).
             if ''contains'' = ''contains''
             then ''search.ismatch('' @ textOf (formatValue v) @ '', '' @ [quote] @ field @ [quote] @ '')''
             else ''contains'' @ ''('' @ field @ '', '' @ textOf (formatValue v) @ '')'')) cont,
          optional (map (\<lambda>(field, v).
             if ''startswith'' = ''contains''
             then ''search.ismatch('' @ textOf (formatValue v) @ '', '' @ [quote] @ field @ [quote] @ '')''
             else ''startswith'' @ ''('' @ field @ '', '' @ textOf (formatValue v) @ '')'')) startsWith,
          optional (map (\<lambda>(field, v).
             if ''endswith'' = ''contains''
             then ''search.ismatch('' @ textOf (formatValue v) @ '', '' @ [quote] @ field @ [quote] @ '')''
             else ''endswith'' @ ''('' @ field @ '', '' @ textOf (formatValue v) @ '')'')) endsWith,
          optional (\<lambda>q. [collection q @ ''/any('' @ payload q @ '')'']) anys,
          optional (\<lambda>q. [collection q @ ''/all('' @ payload q @ '')'']) alls]))
      else Inl RangeError)"
  apply (simp only: translateFilter2.simps translateComparison2_cases
      translateStringOperation2_cases step_logical step_negation step_entries step_quantifier2)
  apply (simp only: Let_def andThen_if andThen_Inr if_merge append_Nil append_Nil2 append_assoc
      concat.simps conj_assoc)
  done

lemma absent_conditions [simp]:
  "logical sep None = []" "negation None = []" "optional g None = []" "quantifier1 name None = []"
  "allReturn None" "oneReturns None" "optionValid None" "quantReturns None"
  by (simp_all add: logical_def negation_def optional_def quantifier1_def allReturn_def
      oneReturns_def optionValid_def quantReturns_def)

lemma list_all_returns:
  "(\<And>c. c \<in> set cs \<Longrightarrow> returns (tf c) = v c) \<Longrightarrow>
     list_all returns (map tf cs) = list_all id (map v cs)"
  by (induction cs) simp_all

lemma returns_translateFilter2: "returns (translateFilter2 f) = valid2 f"
proof (induction f)
  case (Filter2 raw ands ors nots eq ne gt ge lt le cont startsWith endsWith anys alls)
  have a: "allReturn (map_option (map translateFilter2) ands)
      = (case map_option (map valid2) ands of None \<Rightarrow> True | Some vs \<Rightarrow> list_all id vs)"
  proof (cases ands)
    case None
    then show ?thesis by (simp add: allReturn_def)
  next
    case (Some cs)
    have "list_all returns (map translateFilter2 cs) = list_all id (map valid2 cs)"
      by (rule list_all_returns) (simp add: Filter2.IH(1) Some)
    then show ?thesis using Some by (simp add: allReturn_def)
  qed
  have b: "allReturn (map_option (map translateFilter2) ors)
      = (case map_option (map valid2) ors of None \<Rightarrow> True | Some vs \<Rightarrow> list_all id vs)"
  proof (cases ors)
    case None
    then show ?thesis by (simp add: allReturn_def)
  next
    case (Some cs)
    have "list_all returns (map translateFilter2 cs) = list_all id (map valid2 cs)"
      by (rule list_all_returns) (simp add: Filter2.IH(2) Some)
    then show ?thesis using Some by (simp add: allReturn_def)
  qed
  have c: "oneReturns (map_option translateFilter2 nots)
      = (case map_option valid2 nots of None \<Rightarrow> True | Some v \<Rightarrow> v)"
    by (cases nots) (simp_all add: oneReturns_def Filter2.IH(3))
  show ?case
    by (simp only: translateFilter2_conditions returns_if a b c valid2.simps)
qed

lemma textOf_children:
  "map_option (map textOf) (map_option (map translateFilter2) x)
     = map_option (map (\<lambda>c. textOf (translateFilter2 c))) x"
  "map_option textOf (map_option translateFilter2 y)
     = map_option (\<lambda>c. textOf (translateFilter2 c)) y"
  by (simp_all add: option.map_comp comp_def)

lemma allReturn_valid2:
  "allReturn (map_option (map translateFilter2) x)
     = (case map_option (map valid2) x of None \<Rightarrow> True | Some vs \<Rightarrow> list_all id vs)"
  "oneReturns (map_option translateFilter2 y)
     = (case map_option valid2 y of None \<Rightarrow> True | Some v \<Rightarrow> v)"
proof -
  show "allReturn (map_option (map translateFilter2) x)
     = (case map_option (map valid2) x of None \<Rightarrow> True | Some vs \<Rightarrow> list_all id vs)"
  proof (cases x)
    case None
    then show ?thesis by (simp add: allReturn_def)
  next
    case (Some cs)
    have "list_all returns (map translateFilter2 cs) = list_all id (map valid2 cs)"
      by (rule list_all_returns) (simp add: returns_translateFilter2)
    then show ?thesis using Some by (simp add: allReturn_def)
  qed
  show "oneReturns (map_option translateFilter2 y)
     = (case map_option valid2 y of None \<Rightarrow> True | Some v \<Rightarrow> v)"
    by (cases y) (simp_all add: oneReturns_def returns_translateFilter2)
qed

lemma string_names [simp]:
  "(''startswith'' = ''contains'') = False" "(''endswith'' = ''contains'') = False"
  by simp_all

lemma translateFilter2_explicit:
  "translateFilter2 (Filter2 raw ands ors nots eq ne gt ge lt le cont startsWith endsWith anys alls) =
     (if valid2 (Filter2 raw ands ors nots eq ne gt ge lt le cont startsWith endsWith anys alls)
      then Inr (join '' and ''
       (concat
         [logical '' and '' (map_option (map (\<lambda>c. textOf (translateFilter2 c))) ands),
          logical '' or '' (map_option (map (\<lambda>c. textOf (translateFilter2 c))) ors),
          negation (map_option (\<lambda>c. textOf (translateFilter2 c)) nots),
          optional (map (\<lambda>(field, v). field @ '' eq '' @ textOf (formatValue v))) eq,
          optional (map (\<lambda>(field, v). field @ '' ne '' @ textOf (formatValue v))) ne,
          optional (map (\<lambda>(field, v). field @ '' gt '' @ textOf (formatValue v))) gt,
          optional (map (\<lambda>(field, v). field @ '' ge '' @ textOf (formatValue v))) ge,
          optional (map (\<lambda>(field, v). field @ '' lt '' @ textOf (formatValue v))) lt,
          optional (map (\<lambda>(field, v). field @ '' le '' @ textOf (formatValue v))) le,
          optional (map (\<lambda>(field, v).
             ''search.ismatch('' @ textOf (formatValue v) @ '', '' @ [quote] @ field @ [quote] @ '')'')) cont,
          optional (map (\<lambda>(field, v).
             ''startswith('' @ field @ '', '' @ textOf (formatValue v) @ '')'')) startsWith,
          optional (map (\<lambda>(field, v).
             ''endswith('' @ field @ '', '' @ textOf (formatValue v) @ '')'')) endsWith,
          optional (\<lambda>q. [collection q @ ''/any('' @ payload q @ '')'']) anys,
          optional (\<lambda>q. [collection q @ ''/all('' @ payload q @ '')'']) alls]))
      else Inl RangeError)"
  apply (subst translateFilter2_conditions)
  apply (simp only: allReturn_valid2 textOf_children valid2.simps)
  apply (simp only: string_names if_True if_False refl append_Cons append_Nil)
  done

lemma and_node1:
  assumes "mapM translateFilter1 cs = Inr rs"
  shows "translateFilter1 (Filter1 None (Some cs) None None None None None None None None None None None None None)
     = Inr (let survivors = filter (\<lambda>s. s \<noteq> []) rs
            in if survivors = [] then [] else ''('' @ join '' and '' survivors @ '')'')"
  using mapM_Inr [OF assms]
  by (simp add: translateFilter1_conditions allReturn_def logical_def Let_def
      del: translateFilter1.simps)

lemma or_node1:
  assumes "mapM translateFilter1 cs = Inr rs"
  shows "translateFilter1 (Filter1 None None (Some cs) None None None None None None None None None None None None)
     = Inr (let survivors = filter (\<lambda>s. s \<noteq> []) rs
            in if survivors = [] then [] else ''('' @ join '' or '' survivors @ '')'')"
  using mapM_Inr [OF assms]
  by (simp add: translateFilter1_conditions allReturn_def logical_def Let_def
      del: translateFilter1.simps)

lemma not_node1:
  assumes "translateFilter1 c = Inr r"
  shows "translateFilter1 (Filter1 None None None (Some c) None None None None None None None None None None None)
     = Inr (if r = [] then [] else ''not ('' @ r @ '')'')"
  using assms
  by (simp add: translateFilter1_conditions oneReturns_def negation_def returns_def textOf_def
      del: translateFilter1.simps)

lemma and_node2:
  assumes "mapM translateFilter2 cs = Inr rs"
  shows "translateFilter2 (Filter2 None (Some cs) None None None None None None None None None None None None None)
     = Inr (let survivors = filter (\<lambda>s. s \<noteq> []) rs
            in if survivors = [] then [] else ''('' @ join '' and '' survivors @ '')'')"
  using mapM_Inr [OF assms]
  by (simp add: translateFilter2_conditions allReturn_def logical_def Let_def
      del: translateFilter2.simps)

lemma or_node2:
  assumes "mapM translateFilter2 cs = Inr rs"
  shows "translateFilter2 (Filter2 None None (Some cs) None None None None None None None None None None None None)
     = Inr (let survivors = filter (\<lambda>s. s \<noteq> []) rs
            in if survivors = [] then [] else ''('' @ join '' or '' survivors @ '')'')"
  using mapM_Inr [OF assms]
  by (simp add: translateFilter2_conditions allReturn_def logical_def Let_def
      del: translateFilter2.simps)

lemma not_node2:
  assumes "translateFilter2 c = Inr r"
  shows "translateFilter2 (Filter2 None None None (Some c) None None None None None None None None None None None)
     = Inr (if r = [] then [] else ''not ('' @ r @ '')'')"
  using assms
  by (simp add: translateFilter2_conditions oneReturns_def negation_def returns_def textOf_def
      del: translateFilter2.simps)

lemma entries_node2:
  assumes "entriesValid entries"
  shows
    "translateFilter2 (Filter2 None None None None (Some entries) None None None None None None None None None None)
       = Inr (join '' and '' (map (\<lambda>(field, v). field @ '' eq '' @ textOf (formatValue v)) entries))"
    "translateFilter2 (Filter2 None None None None None (Some entries) None None None None None None None None None)
       = Inr (join '' and '' (map (\<lambda>(field, v). field @ '' ne '' @ textOf (formatValue v)) entries))"
    "translateFilter2 (Filter2 None None None None None None (Some entries) None None None None None None None None)
       = Inr (join '' and '' (map (\<lambda>(field, v). field @ '' gt '' @ textOf (formatValue v)) entries))"
    "translateFilter2 (Filter2 None None None None None None None (Some entries) None None None None None None None)
       = Inr (join '' and '' (map (\<lambda>(field, v). field @ '' ge '' @ textOf (formatValue v)) entries))"
    "translateFilter2 (Filter2 None None None None None None None None (Some entries) None None None None None None)
       = Inr (join '' and '' (map (\<lambda>(field, v). field @ '' lt '' @ textOf (formatValue v)) entries))"
    "translateFilter2 (Filter2 None None None None None None None None None (Some entries) None None None None None)
       = Inr (join '' and '' (map (\<lambda>(field, v). field @ '' le '' @ textOf (formatValue v)) entries))"
    "translateFilter2 (Filter2 None None None None None None None None None None (Some entries) None None None None)
       = Inr (join '' and '' (map (\<lambda>(field, v).
            ''search.ismatch('' @ textOf (formatValue v) @ '', '' @ [quote] @ field @ [quote] @ '')'') entries))"
    "translateFilter2 (Filter2 None None None None None None None None None None None (Some entries) None None None)
       = Inr (join '' and '' (map (\<lambda>(field, v).
            ''startswith('' @ field @ '', '' @ textOf (formatValue v) @ '')'') entries))"
    "translateFilter2 (Filter2 None None None None None None None None None None None None (Some entries) None None)
       = Inr (join '' and '' (map (\<lambda>(field, v).
            ''endswith('' @ field @ '', '' @ textOf (formatValue v) @ '')'') entries))"
  using assms
  by (simp_all add: translateFilter2_explicit optionValid_def optional_def
      del: translateFilter2.simps)

section \<open>Trimming a rendering\<close>

text \<open>A rendering of part_002 that is not empty has a character that is not white space,
  so that \<^verbatim>\<open>trim\<close> leaves it non-empty.\<close>

lemma trim_eq_Nil_iff: "trim s = [] \<longleftrightarrow> (\<forall>c\<in>set s. isWhiteSpace c)"
proof
  assume "trim s = []"
  then have all: "\<forall>x\<in>set (dropWhile isWhiteSpace s). isWhiteSpace x"
    by (simp add: trim_def dropWhile_eq_Nil_conv)
  have "dropWhile isWhiteSpace s = []"
  proof (rule ccontr)
    assume ne: "dropWhile isWhiteSpace s \<noteq> []"
    then have "\<not> isWhiteSpace (hd (dropWhile isWhiteSpace s))" by (rule hd_dropWhile)
    moreover have "hd (dropWhile isWhiteSpace s) \<in> set (dropWhile isWhiteSpace s)"
      using ne by (rule hd_in_set)
    ultimately show False using all by blast
  qed
  then show "\<forall>c\<in>set s. isWhiteSpace c" by (simp add: dropWhile_eq_Nil_conv)
next
  assume "\<forall>c\<in>set s. isWhiteSpace c"
  then have d: "dropWhile isWhiteSpace s = []" by (induction s) simp_all
  show "trim s = []" by (simp only: trim_def d rev.simps dropWhile.simps)
qed

lemma inked_append [simp]: "inked (a @ b) \<longleftrightarrow> inked a \<or> inked b"
  by (auto simp: inked_def)

lemma inked_Cons [simp]: "inked (c # s) \<longleftrightarrow> \<not> isWhiteSpace c \<or> inked s"
  by (auto simp: inked_def)

lemma join_inked:
  "xs \<noteq> [] \<Longrightarrow> \<forall>x\<in>set xs. inked x \<Longrightarrow> inked (join sep xs)"
  by (induction sep xs rule: join.induct) simp_all

lemma logical_inked: "\<forall>x\<in>set (logical sep r). inked x"
  by (cases r) (simp_all add: logical_def Let_def isWhiteSpace_def)

lemma negation_inked: "\<forall>x\<in>set (negation r). inked x"
  by (cases r) (simp_all add: negation_def isWhiteSpace_def)

lemma entries_inked:
  "(\<And>field v. inked (h field v)) \<Longrightarrow>
     \<forall>x\<in>set (optional (map (\<lambda>(field, v). h field v)) e). inked x"
  by (cases e) (auto simp: optional_def)

lemma quantifier2_inked:
  "\<forall>x\<in>set (optional (\<lambda>q. [collection q @ CHR ''/'' # rest q]) e). inked x"
  by (cases e) (simp_all add: optional_def isWhiteSpace_def)

lemma translateFilter2_inked:
  assumes "translateFilter2 f = Inr r" and "r \<noteq> []"
  shows "inked r"
proof (cases f)
  case (Filter2 raw ands ors nots eq ne gt ge lt le cont startsWith endsWith anys alls)
  let ?parts = "[logical '' and '' (map_option (map (\<lambda>c. textOf (translateFilter2 c))) ands),
          logical '' or '' (map_option (map (\<lambda>c. textOf (translateFilter2 c))) ors),
          negation (map_option (\<lambda>c. textOf (translateFilter2 c)) nots),
          optional (map (\<lambda>(field, v). field @ '' eq '' @ textOf (formatValue v))) eq,
          optional (map (\<lambda>(field, v). field @ '' ne '' @ textOf (formatValue v))) ne,
          optional (map (\<lambda>(field, v). field @ '' gt '' @ textOf (formatValue v))) gt,
          optional (map (\<lambda>(field, v). field @ '' ge '' @ textOf (formatValue v))) ge,
          optional (map (\<lambda>(field, v). field @ '' lt '' @ textOf (formatValue v))) lt,
          optional (map (\<lambda>(field, v). field @ '' le '' @ textOf (formatValue v))) le,
          optional (map (\<lambda>(field, v).
             ''search.ismatch('' @ textOf (formatValue v) @ '', '' @ [quote] @ field @ [quote] @ '')'')) cont,
          optional (map (\<lambda>(field, v).
             ''startswith('' @ field @ '', '' @ textOf (formatValue v) @ '')'')) startsWith,
          optional (map (\<lambda>(field, v).
             ''endswith('' @ field @ '', '' @ textOf (formatValue v) @ '')'')) endsWith,
          optional (\<lambda>q. [collection q @ ''/any('' @ payload q @ '')'']) anys,
          optional (\<lambda>q. [collection q @ ''/all('' @ payload q @ '')'']) alls]"
  have "translateFilter2 f = (if valid2 f then Inr (join '' and '' (concat ?parts)) else Inl RangeError)"
    unfolding Filter2 by (rule translateFilter2_explicit)
  then have "Inr r = (if valid2 f then Inr (join '' and '' (concat ?parts)) else Inl RangeError)"
    using assms(1) by (simp only:)
  then have eq: "r = join '' and '' (concat ?parts)"
    by (cases "valid2 f") (simp_all only: if_True if_False sum.inject sum.distinct)
  have i1: "\<forall>x\<in>set (optional (map (\<lambda>(field, v). field @ '' eq '' @ textOf (formatValue v))) eq). inked x"
    by (rule entries_inked) (simp add: isWhiteSpace_def)
  have i2: "\<forall>x\<in>set (optional (map (\<lambda>(field, v). field @ '' ne '' @ textOf (formatValue v))) ne). inked x"
    by (rule entries_inked) (simp add: isWhiteSpace_def)
  have i3: "\<forall>x\<in>set (optional (map (\<lambda>(field, v). field @ '' gt '' @ textOf (formatValue v))) gt). inked x"
    by (rule entries_inked) (simp add: isWhiteSpace_def)
  have i4: "\<forall>x\<in>set (optional (map (\<lambda>(field, v). field @ '' ge '' @ textOf (formatValue v))) ge). inked x"
    by (rule entries_inked) (simp add: isWhiteSpace_def)
  have i5: "\<forall>x\<in>set (optional (map (\<lambda>(field, v). field @ '' lt '' @ textOf (formatValue v))) lt). inked x"
    by (rule entries_inked) (simp add: isWhiteSpace_def)
  have i6: "\<forall>x\<in>set (optional (map (\<lambda>(field, v). field @ '' le '' @ textOf (formatValue v))) le). inked x"
    by (rule entries_inked) (simp add: isWhiteSpace_def)
  have i7: "\<forall>x\<in>set (optional (map (\<lambda>(field, v).
             ''search.ismatch('' @ textOf (formatValue v) @ '', '' @ [quote] @ field @ [quote] @ '')'')) cont). inked x"
    by (rule entries_inked) (simp add: isWhiteSpace_def)
  have i8: "\<forall>x\<in>set (optional (map (\<lambda>(field, v).
             ''startswith('' @ field @ '', '' @ textOf (formatValue v) @ '')'')) startsWith). inked x"
    by (rule entries_inked) (simp add: isWhiteSpace_def)
  have i9: "\<forall>x\<in>set (optional (map (\<lambda>(field, v).
             ''endswith('' @ field @ '', '' @ textOf (formatValue v) @ '')'')) endsWith). inked x"
    by (rule entries_inked) (simp add: isWhiteSpace_def)
  have i10: "\<forall>x\<in>set (optional (\<lambda>q. [collection q @ ''/any('' @ payload q @ '')'']) anys). inked x"
    using quantifier2_inked [of "\<lambda>q. ''any('' @ payload q @ '')''" anys] by simp
  have i11: "\<forall>x\<in>set (optional (\<lambda>q. [collection q @ ''/all('' @ payload q @ '')'']) alls). inked x"
    using quantifier2_inked [of "\<lambda>q. ''all('' @ payload q @ '')''" alls] by simp
  have "\<forall>p\<in>set ?parts. \<forall>x\<in>set p. inked x"
    using i1 i2 i3 i4 i5 i6 i7 i8 i9 i10 i11 logical_inked negation_inked
    by (simp only: list.set ball_simps ball_Un insert_iff simp_thms) blast
  then have all: "\<forall>x\<in>set (concat ?parts). inked x" by (simp only: set_concat) blast
  have "concat ?parts \<noteq> []"
  proof
    assume "concat ?parts = []"
    then have "join '' and '' (concat ?parts) = join '' and '' []" by (simp only:)
    then show False using assms(2) eq by simp
  qed
  then show ?thesis unfolding eq using all by (rule join_inked)
qed

lemma trim_rendering:
  assumes "translateFilter2 f = Inr r"
  shows "trim r = [] \<longleftrightarrow> r = []"
proof
  assume t: "trim r = []"
  show "r = []"
  proof (rule ccontr)
    assume "r \<noteq> []"
    then have "inked r" using assms by (rule translateFilter2_inked [rotated])
    then show False using t by (simp add: trim_eq_Nil_iff inked_def)
  qed
next
  assume "r = []"
  then show "trim r = []" by (simp add: trim_def)
qed

lemma translate2_absent_iff:
  "translate2 x = Inr None \<longleftrightarrow>
     x = None \<or> (\<exists>f. x = Some f \<and> \<not> truthy (raw2 f) \<and> translateFilter2 f = Inr [])"
proof (cases x)
  case None
  then show ?thesis by simp
next
  case (Some f)
  show ?thesis
  proof (cases "translateFilter2 f")
    case (Inl e)
    then show ?thesis using Some by (cases "raw2 f") auto
  next
    case (Inr r)
    then show ?thesis using Some trim_rendering [OF Inr]
      by (cases "raw2 f") (auto simp: Let_def)
  qed
qed

lemmas eval_defs =
  translateComparison1_def translateComparison2_def translateStringOperation1_def
  translateStringOperation2_def escapeFieldName1_def escapeFieldName2_def includes_char_def
  trim_def isWhiteSpace_def replaceAll_def quote_def

section \<open>The earlier revision\<close>

text \<open>
  Where \<^verbatim>\<open>src/unnamed/part_001\<close> differs from the later revision: an empty rendering is
  returned as the empty string, a field name with \<^verbatim>\<open>/\<close>, a space or \<^verbatim>\<open>-\<close> is quoted
  (any other name is emitted as it is), and the quantifiers translate a sub-filter.
\<close>

lemma earlier_revision_differences:
  "translate1 (Some (Filter1 None (Some []) None None None None None None None None None None None None None))
     = Inr (Some [])"
  "translate1 (Some (Filter1 None None None None (Some [(''Address/City'', JOther ''5'')]) None None None None None None None None None None))
     = Inr (Some ([quote] @ ''Address/City'' @ [quote] @ '' eq 5''))"
  "translate1 (Some (Filter1 None None None None None None None None None None None None None
      (Some (CollectionOp ''tags''
         (Filter1 None None None None (Some [(''name'', JOther ''5'')]) None None None None None None None None None None)))
      None))
     = Inr (Some ''tags/any(x: name eq 5)'')"
  by (simp_all add: translateComparison1_def escapeFieldName1_def includes_char_def)

lemma escapeFieldName1_plain:
  "CHR ''/'' \<notin> set field \<Longrightarrow> CHR '' '' \<notin> set field \<Longrightarrow> CHR ''-'' \<notin> set field \<Longrightarrow>
     escapeFieldName1 field = field"
  by (simp add: escapeFieldName1_def includes_char_def)

section \<open>The service calls of \<^verbatim>\<open>upsert\<close>\<close>

lemma describeIndex_calls:
  "describeIndex svc indexName s = (Inr indexInfo, s1) \<Longrightarrow>
     fst s1 = fst s @ [GetIndex indexName, GetDocumentsCount indexName]"
  by (auto simp: describeIndex_def describeIndex_try_def call_getIndex_def
      call_getDocumentsCount_def Let_def
      split: prod.splits sum.splits option.splits if_splits)

lemma validateFrom_mismatch:
  "\<exists>v\<in>set vectors. Some (length v) \<noteq> dimension \<Longrightarrow>
     \<exists>j n. validateFrom i vectors dimension = Inl (InvalidDimension j n dimension)"
  by (induction vectors arbitrary: i) auto

lemma mock_describeIndex:
  "describeIndex mockService ''test-index'' ([], ())
     = (Inr \<lparr>stats_dimension = Some 3, stats_count = 100, stats_metric = ''cosine''\<rparr>,
        ([GetIndex ''test-index'', GetDocumentsCount ''test-index''], ()))"
  by (simp add: describeIndex_def describeIndex_try_def call_getIndex_def
      call_getDocumentsCount_def mockService_def mock_getIndex_def mock_getDocumentsCount_def
      find_field_def isVectorField_def js_or_def METRIC_MAPPING_def)

lemma upsert_example:
  "upsert mockService mock_randomUUID ''test-index'' [[1, 2, 3]] [] (Some [''doc1'']) ([], ())
     = (Inr [''doc1''],
        ([GetIndex ''test-index'', GetDocumentsCount ''test-index'', GetIndex ''test-index'',
          UploadDocuments ''test-index''
            [\<lparr>doc_id = Some ''doc1'', doc_vectorFieldName = ''vector'', doc_vector = [1, 2, 3],
              doc_metadata = ''{}'', doc_content = []\<rparr>]], ()))"
  apply (simp add: upsert_def upsert_try_def mock_describeIndex validateVectorDimensions_def)
  apply (simp add: getVectorFieldName_def call_getIndex_def call_uploadDocuments_def
      mockService_def mock_getIndex_def mock_uploadDocuments_def find_field_def
      isVectorField_def Let_def)
  done

section \<open>The claims\<close>

text \<open>
  C1 (the result is absent exactly when the input is absent or the structured rendering
  is empty). \<^verbatim>\<open>translate\<close> of part_002 returns \<^verbatim>\<open>undefined\<close> exactly when the filter
  is absent, or its raw field is not truthy, so that the structured rendering is what
  \<^verbatim>\<open>translate\<close> returns, and that rendering is the empty string. In particular
  \<^verbatim>\<open>{ and: [] }\<close>, \<^verbatim>\<open>{}\<close> and \<^verbatim>\<open>{ and: [{}, { or: [] }] }\<close> translate to
  \<^verbatim>\<open>undefined\<close>, not to the empty string, and \<^verbatim>\<open>{ eq: { a: 1 } }\<close> translates to
  \<^verbatim>\<open>a eq 1\<close>.
\<close>

theorem translate2_absent_exactly:
  "(translate2 x = Inr None \<longleftrightarrow>
      x = None \<or> (\<exists>f. x = Some f \<and> \<not> truthy (raw2 f) \<and> translateFilter2 f = Inr []))
   \<and> translate2 None = Inr None
   \<and> translate2 (Some (Filter2 None (Some []) None None None None None None None None None None None None None))
       = Inr None
   \<and> translate2 (Some (Filter2 None None None None None None None None None None None None None None None))
       = Inr None
   \<and> translate2 (Some (Filter2 None
         (Some [Filter2 None None None None None None None None None None None None None None None,
                Filter2 None None (Some []) None None None None None None None None None None None None])
         None None None None None None None None None None None None None))
       = Inr None
   \<and> translate2 (Some (Filter2 None None None None (Some [(''a'', JOther ''1'')]) None None None None None None None None None None))
       = Inr (Some ''a eq 1'')"
  apply (intro conjI)
       apply (rule translate2_absent_iff)
      apply (simp_all add: eval_defs)
  done

text \<open>
  C2 (a populated raw field is returned unchanged), counterexample. The check of the raw
  field is a truthiness check, so a raw field that is present and empty is not returned:
  \<^verbatim>\<open>{ $filter: '', eq: { a: 1 } }\<close> translates to \<^verbatim>\<open>a eq 1\<close> in both revisions.
\<close>

theorem translate_empty_raw_not_returned:
  "raw1 (Filter1 (Some []) None None None (Some [(''a'', JOther ''1'')]) None None None None None None None None None None)
     = Some []
   \<and> translate1 (Some (Filter1 (Some []) None None None (Some [(''a'', JOther ''1'')]) None None None None None None None None None None))
     = Inr (Some ''a eq 1'')
   \<and> raw2 (Filter2 (Some []) None None None (Some [(''a'', JOther ''1'')]) None None None None None None None None None None)
     = Some []
   \<and> translate2 (Some (Filter2 (Some []) None None None (Some [(''a'', JOther ''1'')]) None None None None None None None None None None))
     = Inr (Some ''a eq 1'')"
  by (simp add: eval_defs)

text \<open>
  C2, as amended: for every filter whose raw field is populated with a non-empty string,
  \<^verbatim>\<open>translate\<close> returns that string unchanged, whatever the other fields are. This
  holds in both revisions.
\<close>

theorem translate_raw_nonempty:
  "(raw1 f = Some s \<and> s \<noteq> [] \<longrightarrow> translate1 (Some f) = Inr (Some s))
   \<and> (raw2 g = Some s \<and> s \<noteq> [] \<longrightarrow> translate2 (Some g) = Inr (Some s))"
  by simp

theorem translate_raw_nonempty_witness:
  "translate1 (Some (Filter1 (Some ''price lt 100'') (Some []) None None (Some [(''a'', JOther ''1'')]) None None None None None None None None None None))
     = Inr (Some ''price lt 100'')
   \<and> translate2 (Some (Filter2 (Some ''price lt 100'') (Some []) None None (Some [(''a'', JOther ''1'')]) None None None None None None None None None None))
     = Inr (Some ''price lt 100'')"
  using translate_raw_nonempty
    [of "Filter1 (Some ''price lt 100'') (Some []) None None (Some [(''a'', JOther ''1'')]) None None None None None None None None None None"
        "''price lt 100''"
        "Filter2 (Some ''price lt 100'') (Some []) None None (Some [(''a'', JOther ''1'')]) None None None None None None None None None None"]
  by simp

text \<open>
  C3 (a field name is emitted unchanged outside the \<^verbatim>\<open>search.ismatch\<close> form).
  \<^verbatim>\<open>escapeFieldName\<close> of part_002 returns every field name as it is, and in each of
  the eight contexts that call it (\<^verbatim>\<open>eq\<close>, \<^verbatim>\<open>ne\<close>, \<^verbatim>\<open>gt\<close>, \<^verbatim>\<open>ge\<close>, \<^verbatim>\<open>lt\<close>,
  \<^verbatim>\<open>le\<close>, \<^verbatim>\<open>startsWith\<close>, \<^verbatim>\<open>endsWith\<close>) the rendering of a mapping whose values all
  format holds every field name unchanged, with no quotes and no escapes, also a name
  with \<^verbatim>\<open>/\<close>, a space or \<^verbatim>\<open>-\<close>.
\<close>

theorem field_name_unchanged:
  assumes "entriesValid entries"
  shows "escapeFieldName2 field = field
   \<and> translateFilter2 (Filter2 None None None None (Some entries) None None None None None None None None None None)
       = Inr (join '' and '' (map (\<lambda>(field, v). field @ '' eq '' @ textOf (formatValue v)) entries))
   \<and> translateFilter2 (Filter2 None None None None None (Some entries) None None None None None None None None None)
       = Inr (join '' and '' (map (\<lambda>(field, v). field @ '' ne '' @ textOf (formatValue v)) entries))
   \<and> translateFilter2 (Filter2 None None None None None None (Some entries) None None None None None None None None)
       = Inr (join '' and '' (map (\<lambda>(field, v). field @ '' gt '' @ textOf (formatValue v)) entries))
   \<and> translateFilter2 (Filter2 None None None None None None None (Some entries) None None None None None None None)
       = Inr (join '' and '' (map (\<lambda>(field, v). field @ '' ge '' @ textOf (formatValue v)) entries))
   \<and> translateFilter2 (Filter2 None None None None None None None None (Some entries) None None None None None None)
       = Inr (join '' and '' (map (\<lambda>(field, v). field @ '' lt '' @ textOf (formatValue v)) entries))
   \<and> translateFilter2 (Filter2 None None None None None None None None None (Some entries) None None None None None)
       = Inr (join '' and '' (map (\<lambda>(field, v). field @ '' le '' @ textOf (formatValue v)) entries))
   \<and> translateFilter2 (Filter2 None None None None None None None None None None None (Some entries) None None None)
       = Inr (join '' and '' (map (\<lambda>(field, v).
            ''startswith('' @ field @ '', '' @ textOf (formatValue v) @ '')'') entries))
   \<and> translateFilter2 (Filter2 None None None None None None None None None None None None (Some entries) None None)
       = Inr (join '' and '' (map (\<lambda>(field, v).
            ''endswith('' @ field @ '', '' @ textOf (formatValue v) @ '')'') entries))"
  using entries_node2 [OF assms] by (simp only: escapeFieldName2_def simp_thms)

theorem field_name_unchanged_witness:
  "translateFilter2 (Filter2 None None None None
       (Some [(''Address/City'', JOther ''5''), (''first name'', JBoolean True), (''a-b'', JNull)])
       None None None None None None None None None None)
     = Inr ''Address/City eq 5 and first name eq true and a-b eq null''
   \<and> translateFilter2 (Filter2 None None None None None None None None None None None
       (Some [(''Address/City'', JOther ''5''), (''first name'', JBoolean True), (''a-b'', JNull)])
       None None None)
     = Inr ''startswith(Address/City, 5) and startswith(first name, true) and startswith(a-b, null)''"
proof -
  let ?es = "[(''Address/City'', JOther ''5''), (''first name'', JBoolean True), (''a-b'', JNull)]"
  have v: "entriesValid ?es" by (simp add: entriesValid_def)
  note t = field_name_unchanged [OF v]
  show ?thesis
    by (simp only: t [THEN conjunct2, THEN conjunct1]
        t [THEN conjunct2, THEN conjunct2, THEN conjunct2, THEN conjunct2, THEN conjunct2,
           THEN conjunct2, THEN conjunct2, THEN conjunct1])
      (simp add: textOf_def)
qed

text \<open>
  C4 (\<^verbatim>\<open>any\<close> and \<^verbatim>\<open>all\<close> insert the raw predicate string verbatim). In part_002
  the quantifiers carry a predicate string; for every collection field and every
  predicate string \<^verbatim>\<open>translateFilter\<close> renders the quantifier as the collection field,
  \<^verbatim>\<open>/any(\<close> or \<^verbatim>\<open>/all(\<close>, the predicate and \<^verbatim>\<open>)\<close>: nothing is translated
  recursively and no lambda variable is added. (\<^verbatim>\<open>translate\<close> returns this rendering
  trimmed.)
\<close>

theorem quantifier_verbatim:
  "translateFilter2 (Filter2 None None None None None None None None None None None None None
       (Some (CollectionOp coll predicate)) None)
     = Inr (coll @ ''/any('' @ predicate @ '')'')
   \<and> translateFilter2 (Filter2 None None None None None None None None None None None None None
       None (Some (CollectionOp coll predicate)))
     = Inr (coll @ ''/all('' @ predicate @ '')'')
   \<and> translateFilter2 (Filter2 None None None None None None None None None None None None None
       (Some (CollectionOp coll predicate)) (Some (CollectionOp coll' predicate')))
     = Inr (coll @ ''/any('' @ predicate @ '')'' @ '' and '' @ coll' @ ''/all('' @ predicate' @ '')'')
   \<and> translateFilter2 (Filter2 None None None None None None None None None None None None None
       (Some (CollectionOp ''stores'' ''s: s/name eq 1'')) None)
     = Inr ''stores/any(s: s/name eq 1)''
   \<and> translateFilter2 (Filter2 None None None None None None None None None None None None None
       (Some (CollectionOp ''tags'' (''t: t eq '' @ [quote] @ ''new'' @ [quote]))) None)
     = Inr (''tags/any(t: t eq '' @ [quote] @ ''new'' @ [quote] @ '')'')
   \<and> translate2 (Some (Filter2 None None None None None None None None None None None None None
       (Some (CollectionOp coll predicate)) None))
     = Inr (Some (trim (coll @ ''/any('' @ predicate @ '')'')))
   \<and> translate2 (Some (Filter2 None None None None None None None None None None None None None
       None (Some (CollectionOp coll predicate))))
     = Inr (Some (trim (coll @ ''/all('' @ predicate @ '')'')))
   \<and> translate2 (Some (Filter2 None None None None None None None None None None None None None
       (Some (CollectionOp ''stores'' ''s: s/name eq 1'')) None))
     = Inr (Some ''stores/any(s: s/name eq 1)'')"
proof -
  have t: "trim (coll @ CHR ''/'' # rest) \<noteq> []" for coll rest
    by (simp add: trim_eq_Nil_iff isWhiteSpace_def)
  have e: "trim ''stores/any(s: s/name eq 1)'' = ''stores/any(s: s/name eq 1)''"
    by (simp add: trim_def isWhiteSpace_def)
  show ?thesis
    using t [of coll "''any('' @ predicate @ '')''"] t [of coll "''all('' @ predicate @ '')''"] e
    by (simp add: Let_def)
qed

text \<open>
  C5 (a node with several populated fields is the conjunction of all of them). For
  every node of part_002 in which no value is an invalid date, the rendering is the
  condition strings of the populated fields, each field rendered by its own rule, in
  the order \<^verbatim>\<open>and\<close>, \<^verbatim>\<open>or\<close>, \<^verbatim>\<open>not\<close>, \<^verbatim>\<open>eq\<close>, \<^verbatim>\<open>ne\<close>, \<^verbatim>\<open>gt\<close>, \<^verbatim>\<open>ge\<close>,
  \<^verbatim>\<open>lt\<close>, \<^verbatim>\<open>le\<close>, \<^verbatim>\<open>contains\<close>, \<^verbatim>\<open>startsWith\<close>, \<^verbatim>\<open>endsWith\<close>, \<^verbatim>\<open>any\<close>,
  \<^verbatim>\<open>all\<close>, joined with \<^verbatim>\<open> and \<close>. (With an invalid date in it no field is
  rendered: the translation throws.) The witness populates all fourteen fields of one
  node.
\<close>

theorem node_is_conjunction_of_fields:
  "translateFilter2 (Filter2 raw ands ors nots eq ne gt ge lt le cont startsWith endsWith anys alls) =
     (if valid2 (Filter2 raw ands ors nots eq ne gt ge lt le cont startsWith endsWith anys alls)
      then Inr (join '' and ''
       (concat
         [logical '' and '' (map_option (map (\<lambda>c. textOf (translateFilter2 c))) ands),
          logical '' or '' (map_option (map (\<lambda>c. textOf (translateFilter2 c))) ors),
          negation (map_option (\<lambda>c. textOf (translateFilter2 c)) nots),
          optional (map (\<lambda>(field, v). field @ '' eq '' @ textOf (formatValue v))) eq,
          optional (map (\<lambda>(field, v). field @ '' ne '' @ textOf (formatValue v))) ne,
          optional (map (\<lambda>(field, v). field @ '' gt '' @ textOf (formatValue v))) gt,
          optional (map (\<lambda>(field, v). field @ '' ge '' @ textOf (formatValue v))) ge,
          optional (map (\<lambda>(field, v). field @ '' lt '' @ textOf (formatValue v))) lt,
          optional (map (\<lambda>(field, v). field @ '' le '' @ textOf (formatValue v))) le,
          optional (map (\<lambda>(field, v).
             ''search.ismatch('' @ textOf (formatValue v) @ '', '' @ [quote] @ field @ [quote] @ '')'')) cont,
          optional (map (\<lambda>(field, v).
             ''startswith('' @ field @ '', '' @ textOf (formatValue v) @ '')'')) startsWith,
          optional (map (\<lambda>(field, v).
             ''endswith('' @ field @ '', '' @ textOf (formatValue v) @ '')'')) endsWith,
          optional (\<lambda>q. [collection q @ ''/any('' @ payload q @ '')'']) anys,
          optional (\<lambda>q. [collection q @ ''/all('' @ payload q @ '')'']) alls]))
      else Inl RangeError)"
  by (rule translateFilter2_explicit)

theorem node_is_conjunction_of_fields_witness:
  "translateFilter2 (Filter2 None
      (Some [Filter2 None None None None (Some [(''a'', JOther ''1'')]) None None None None None None None None None None])
      (Some [Filter2 None None None None (Some [(''b'', JOther ''2'')]) None None None None None None None None None None,
             Filter2 None None None None (Some [(''c'', JOther ''3'')]) None None None None None None None None None None])
      (Some (Filter2 None None None None (Some [(''d'', JOther ''4'')]) None None None None None None None None None None))
      (Some [(''e'', JOther ''5'')])
      (Some [(''f'', JOther ''6'')])
      (Some [(''g'', JOther ''7'')])
      (Some [(''h'', JOther ''8'')])
      (Some [(''i'', JOther ''9'')])
      (Some [(''j'', JOther ''10'')])
      (Some [(''k'', JOther ''11'')])
      (Some [(''l'', JOther ''12'')])
      (Some [(''m'', JOther ''13'')])
      (Some (CollectionOp ''n'' ''x: x eq 14''))
      (Some (CollectionOp ''o'' ''y: y eq 15'')))
   = Inr (''(a eq 1) and (b eq 2 or c eq 3) and not (d eq 4) and e eq 5 and f ne 6 and g gt 7''
          @ '' and h ge 8 and i lt 9 and j le 10 and search.ismatch(11, '' @ [quote] @ ''k'' @ [quote]
          @ '') and startswith(l, 12) and endswith(m, 13) and n/any(x: x eq 14) and o/all(y: y eq 15)'')
   \<and> translateFilter2 (Filter2 None None None None None None
      (Some [(''price'', JOther ''10'')]) (Some [(''year'', JOther ''2020'')])
      (Some [(''rating'', JOther ''5'')]) (Some [(''pages'', JOther ''300'')])
      None None None None None)
   = Inr ''price gt 10 and year ge 2020 and rating lt 5 and pages le 300''
   \<and> translateFilter2 (Filter2 None None None None None None
      (Some [(''price'', JOther ''10'')]) None
      (Some [(''published'', JDate None)]) None
      None None None None None)
   = Inl RangeError"
proof -
  have c: "textOf (translateFilter2 (Filter2 None None None None (Some [(n, JOther t)]) None None None None None None None None None None))
      = n @ '' eq '' @ t" for n t
    by (simp add: eval_defs textOf_def)
  have f: "textOf (Inr t) = t" for t
    by (simp add: textOf_def)
  show ?thesis
    apply (intro conjI)
      apply (subst node_is_conjunction_of_fields)
      apply (simp add: c f logical_def negation_def optional_def optionValid_def entriesValid_def
        quote_def del: translateFilter2.simps)
     apply (subst node_is_conjunction_of_fields)
     apply (simp add: f optional_def optionValid_def entriesValid_def del: translateFilter2.simps)
    apply (subst node_is_conjunction_of_fields)
    apply (simp add: optionValid_def entriesValid_def del: translateFilter2.simps)
    done
qed

text \<open>
  C6 (\<^verbatim>\<open>and\<close>, \<^verbatim>\<open>or\<close> and \<^verbatim>\<open>not\<close> nodes). In both revisions, an \<^verbatim>\<open>and\<close> node
  whose children translate to the strings \<open>rs\<close> drops the empty strings among them,
  joins the survivors with \<^verbatim>\<open> and \<close> and wraps the result in one pair of parentheses
  when there is a survivor (and renders to nothing otherwise); an \<^verbatim>\<open>or\<close> node does the
  same with \<^verbatim>\<open> or \<close>; a \<^verbatim>\<open>not\<close> node whose child translates to a non-empty string
  \<open>r\<close> renders as \<^verbatim>\<open>not (\<close>\<open>r\<close>\<^verbatim>\<open>)\<close>. The last two conjuncts are the examples of
  the specification.
\<close>

theorem logical_nodes:
  "(mapM translateFilter1 cs = Inr rs \<longrightarrow>
      translateFilter1 (Filter1 None (Some cs) None None None None None None None None None None None None None)
        = Inr (let survivors = filter (\<lambda>s. s \<noteq> []) rs
               in if survivors = [] then [] else ''('' @ join '' and '' survivors @ '')''))
   \<and> (mapM translateFilter1 cs = Inr rs \<longrightarrow>
      translateFilter1 (Filter1 None None (Some cs) None None None None None None None None None None None None)
        = Inr (let survivors = filter (\<lambda>s. s \<noteq> []) rs
               in if survivors = [] then [] else ''('' @ join '' or '' survivors @ '')''))
   \<and> (translateFilter1 c = Inr r \<longrightarrow>
      translateFilter1 (Filter1 None None None (Some c) None None None None None None None None None None None)
        = Inr (if r = [] then [] else ''not ('' @ r @ '')''))
   \<and> (mapM translateFilter2 ds = Inr ts \<longrightarrow>
      translateFilter2 (Filter2 None (Some ds) None None None None None None None None None None None None None)
        = Inr (let survivors = filter (\<lambda>s. s \<noteq> []) ts
               in if survivors = [] then [] else ''('' @ join '' and '' survivors @ '')''))
   \<and> (mapM translateFilter2 ds = Inr ts \<longrightarrow>
      translateFilter2 (Filter2 None None (Some ds) None None None None None None None None None None None None)
        = Inr (let survivors = filter (\<lambda>s. s \<noteq> []) ts
               in if survivors = [] then [] else ''('' @ join '' or '' survivors @ '')''))
   \<and> (translateFilter2 d = Inr t \<longrightarrow>
      translateFilter2 (Filter2 None None None (Some d) None None None None None None None None None None None)
        = Inr (if t = [] then [] else ''not ('' @ t @ '')''))
   \<and> translateFilter2 (Filter2 None
        (Some [Filter2 None None None None (Some [(''category'', JString ''electronics'')]) None None None None None None None None None None,
               Filter2 None None None None None None (Some [(''price'', JOther ''10'')]) None None None None None None None None])
        None None None None None None None None None None None None None)
       = Inr (''(category eq '' @ [quote] @ ''electronics'' @ [quote] @ '' and price gt 10)'')
   \<and> translateFilter2 (Filter2 None None None
        (Some (Filter2 None None None None (Some [(''category'', JString ''electronics'')]) None None None None None None None None None None))
        None None None None None None None None None None None)
       = Inr (''not (category eq '' @ [quote] @ ''electronics'' @ [quote] @ '')'')"
  apply (intro conjI impI)
         apply (erule and_node1)
        apply (erule or_node1)
       apply (erule not_node1)
      apply (erule and_node2)
     apply (erule or_node2)
    apply (erule not_node2)
   apply (simp_all add: eval_defs)
  done

theorem logical_nodes_witness:
  "translateFilter1 (Filter1 None
      (Some [Filter1 None None None None (Some [(''a'', JOther ''1'')]) None None None None None None None None None None,
             Filter1 None None None None None None None None None None None None None None None,
             Filter1 None None None None None None (Some [(''b'', JOther ''2'')]) None None None None None None None None])
      None None None None None None None None None None None None None)
     = Inr ''(a eq 1 and b gt 2)''
   \<and> translateFilter2 (Filter2 None None
      (Some [Filter2 None None None None (Some [(''a'', JOther ''1'')]) None None None None None None None None None None,
             Filter2 None (Some []) None None None None None None None None None None None None None,
             Filter2 None None None None None None (Some [(''b'', JOther ''2'')]) None None None None None None None None])
      None None None None None None None None None None None None)
     = Inr ''(a eq 1 or b gt 2)''
   \<and> translateFilter2 (Filter2 None None None
      (Some (Filter2 None None None None (Some [(''a'', JOther ''1'')]) None None None None None None None None None None))
      None None None None None None None None None None None)
     = Inr ''not (a eq 1)''"
proof -
  let ?a1 = "Filter1 None None None None (Some [(''a'', JOther ''1'')]) None None None None None None None None None None"
  let ?e1 = "Filter1 None None None None None None None None None None None None None None None"
  let ?b1 = "Filter1 None None None None None None (Some [(''b'', JOther ''2'')]) None None None None None None None None"
  let ?a2 = "Filter2 None None None None (Some [(''a'', JOther ''1'')]) None None None None None None None None None None"
  let ?e2 = "Filter2 None (Some []) None None None None None None None None None None None None None"
  let ?b2 = "Filter2 None None None None None None (Some [(''b'', JOther ''2'')]) None None None None None None None None"
  have h1: "mapM translateFilter1 [?a1, ?e1, ?b1] = Inr [''a eq 1'', [], ''b gt 2'']"
    by (simp add: eval_defs)
  have h2: "mapM translateFilter2 [?a2, ?e2, ?b2] = Inr [''a eq 1'', [], ''b gt 2'']"
    by (simp add: eval_defs)
  have h3: "translateFilter2 ?a2 = Inr ''a eq 1''"
    by (simp add: eval_defs)
  note t = logical_nodes [of "[?a1, ?e1, ?b1]" "[''a eq 1'', [], ''b gt 2'']" _ _
      "[?a2, ?e2, ?b2]" "[''a eq 1'', [], ''b gt 2'']" ?a2 "''a eq 1''"]
  have "translateFilter1 (Filter1 None (Some [?a1, ?e1, ?b1]) None None None None None None None None None None None None None)
     = Inr ''(a eq 1 and b gt 2)''"
    using t [THEN conjunct1, rule_format, OF h1] by simp
  moreover have "translateFilter2 (Filter2 None None (Some [?a2, ?e2, ?b2]) None None None None None None None None None None None None)
     = Inr ''(a eq 1 or b gt 2)''"
    using t [THEN conjunct2, THEN conjunct2, THEN conjunct2, THEN conjunct2, THEN conjunct1,
        rule_format, OF h2] by simp
  moreover have "translateFilter2 (Filter2 None None None (Some ?a2) None None None None None None None None None None None)
     = Inr ''not (a eq 1)''"
    using t [THEN conjunct2, THEN conjunct2, THEN conjunct2, THEN conjunct2, THEN conjunct2,
        THEN conjunct1, rule_format, OF h3] by simp
  ultimately show ?thesis by (simp only: simp_thms)
qed

text \<open>
  C7 (\<^verbatim>\<open>formatValue\<close> renders every scalar per its type), counterexample. A date renders
  as its ISO string only when it is valid: on an invalid date \<^verbatim>\<open>value.toISOString()\<close>
  throws a \<^verbatim>\<open>RangeError\<close>, which \<^verbatim>\<open>formatValue\<close> does not catch.
\<close>

theorem formatValue_invalid_date_throws:
  "formatValue (JDate None) = Inl RangeError"
  by simp

text \<open>
  C7, as amended: a string is wrapped in single quotes with every single quote in it
  doubled; a valid date renders as its ISO text, unquoted, and an invalid date makes
  \<^verbatim>\<open>formatValue\<close> throw the \<^verbatim>\<open>RangeError\<close> of \<^verbatim>\<open>toISOString\<close>; a boolean renders
  as \<^verbatim>\<open>true\<close> or \<^verbatim>\<open>false\<close>; null and undefined render as \<^verbatim>\<open>null\<close>; any other value
  renders as its default string conversion, unquoted. The function is the same in both
  revisions.
\<close>

theorem formatValue_by_type:
  "formatValue (JString s)
     = Inr ([quote] @ concat (map (\<lambda>c. if c = quote then [quote, quote] else [c]) s) @ [quote])
   \<and> formatValue (JDate (Some d)) = Inr d
   \<and> formatValue (JDate None) = Inl RangeError
   \<and> formatValue (JBoolean True) = Inr ''true''
   \<and> formatValue (JBoolean False) = Inr ''false''
   \<and> formatValue JNull = Inr ''null''
   \<and> formatValue JUndefined = Inr ''null''
   \<and> formatValue (JOther t) = Inr t
   \<and> formatValue (JString ''Book's Title'')
     = Inr ([quote] @ ''Book'' @ [quote, quote] @ ''s Title'' @ [quote])"
  by (simp add: replaceAll_def quote_def cong: if_cong)

text \<open>
  C8 (the string operations). In part_002, for every mapping whose values all format,
  \<^verbatim>\<open>startsWith\<close> renders every pair as \<^verbatim>\<open>startswith(\<close>field\<^verbatim>\<open>, \<close>value\<^verbatim>\<open>)\<close> and
  \<^verbatim>\<open>endsWith\<close> as \<^verbatim>\<open>endswith(\<close>field\<^verbatim>\<open>, \<close>value\<^verbatim>\<open>)\<close>, with the field as an
  unquoted path, and \<^verbatim>\<open>contains\<close> renders it as
  \<^verbatim>\<open>search.ismatch(\<close>value\<^verbatim>\<open>, '\<close>field\<^verbatim>\<open>')\<close>, never as a call of \<^verbatim>\<open>contains\<close>.
\<close>

theorem string_operations:
  assumes "entriesValid entries"
  shows "translateFilter2 (Filter2 None None None None None None None None None None None (Some entries) None None None)
       = Inr (join '' and '' (map (\<lambda>(field, v).
            ''startswith('' @ field @ '', '' @ textOf (formatValue v) @ '')'') entries))
   \<and> translateFilter2 (Filter2 None None None None None None None None None None None None (Some entries) None None)
       = Inr (join '' and '' (map (\<lambda>(field, v).
            ''endswith('' @ field @ '', '' @ textOf (formatValue v) @ '')'') entries))
   \<and> translateFilter2 (Filter2 None None None None None None None None None None (Some entries) None None None None)
       = Inr (join '' and '' (map (\<lambda>(field, v).
            ''search.ismatch('' @ textOf (formatValue v) @ '', '' @ [quote] @ field @ [quote] @ '')'') entries))"
  using entries_node2 [OF assms] by (simp only: simp_thms)

theorem string_operations_witness:
  "translateFilter2 (Filter2 None None None None None None None None None None None
       (Some [(''title'', JString ''The'')]) None None None)
     = Inr (''startswith(title, '' @ [quote] @ ''The'' @ [quote] @ '')'')
   \<and> translateFilter2 (Filter2 None None None None None None None None None None None None
       (Some [(''first name'', JString ''son'')]) None None)
     = Inr (''endswith(first name, '' @ [quote] @ ''son'' @ [quote] @ '')'')
   \<and> translateFilter2 (Filter2 None None None None None None None None None None
       (Some [(''description'', JString ''adventure'')]) None None None None)
     = Inr (''search.ismatch('' @ [quote] @ ''adventure'' @ [quote] @ '', '' @ [quote] @ ''description'' @ [quote] @ '')'')"
proof -
  have v: "entriesValid [(''title'', JString ''The'')]"
    "entriesValid [(''first name'', JString ''son'')]"
    "entriesValid [(''description'', JString ''adventure'')]"
    by (simp_all add: entriesValid_def)
  show ?thesis
    by (simp only: string_operations [OF v(1), THEN conjunct1]
        string_operations [OF v(2), THEN conjunct2, THEN conjunct1]
        string_operations [OF v(3), THEN conjunct2, THEN conjunct2])
      (simp add: textOf_def replaceAll_def quote_def)
qed

text \<open>
  C9 (a dimension mismatch is rejected before any service call), counterexample.
  \<^verbatim>\<open>upsert\<close> learns the dimension of the index from \<^verbatim>\<open>describeIndex\<close>, which calls
  the service twice (\<^verbatim>\<open>getIndex\<close> and \<^verbatim>\<open>getDocumentsCount\<close>); the vectors are checked
  after that. Here a vector of length 2 is upserted into an index of dimension 3: the
  rejection comes after two service calls.
\<close>

theorem upsert_describes_before_rejecting:
  "upsert mockService mock_randomUUID ''test-index'' [[1, 2]] [] None ([], ())
     = (Inl (MastraError ''STORAGE_AZURE_AI_SEARCH_UPSERT_FAILED'' (InvalidDimension 0 2 (Some 3))),
        ([GetIndex ''test-index'', GetDocumentsCount ''test-index''], ()))"
  by (simp add: upsert_def upsert_try_def mock_describeIndex validateVectorDimensions_def)

text \<open>
  C9, as amended: for every upsert call in which \<^verbatim>\<open>describeIndex\<close> returns the index
  statistics and some vector's length differs from the dimension in them, the operation
  is rejected with an error (\<^verbatim>\<open>STORAGE_AZURE_AI_SEARCH_UPSERT_FAILED\<close>, caused by the
  invalid dimension of a vector) after the two service calls of \<^verbatim>\<open>describeIndex\<close>
  (\<^verbatim>\<open>getIndex\<close>, \<^verbatim>\<open>getDocumentsCount\<close>) and before any other service call: no
  document is uploaded.
\<close>

theorem upsert_dimension_mismatch:
  assumes "describeIndex svc indexName s = (Inr indexInfo, s1)"
    and "\<exists>v\<in>set vectors. Some (length v) \<noteq> stats_dimension indexInfo"
  shows "(\<exists>i n. upsert svc uuids indexName vectors metadata ids s
            = (Inl (MastraError ''STORAGE_AZURE_AI_SEARCH_UPSERT_FAILED''
                      (InvalidDimension i n (stats_dimension indexInfo))), s1))
         \<and> fst s1 = fst s @ [GetIndex indexName, GetDocumentsCount indexName]"
proof
  obtain i n where "validateVectorDimensions vectors (stats_dimension indexInfo)
      = Inl (InvalidDimension i n (stats_dimension indexInfo))"
    using validateFrom_mismatch [OF assms(2)] unfolding validateVectorDimensions_def by blast
  then have "upsert svc uuids indexName vectors metadata ids s
            = (Inl (MastraError ''STORAGE_AZURE_AI_SEARCH_UPSERT_FAILED''
                      (InvalidDimension i n (stats_dimension indexInfo))), s1)"
    using assms(1) by (simp add: upsert_def upsert_try_def)
  then show "\<exists>i n. upsert svc uuids indexName vectors metadata ids s
            = (Inl (MastraError ''STORAGE_AZURE_AI_SEARCH_UPSERT_FAILED''
                      (InvalidDimension i n (stats_dimension indexInfo))), s1)"
    by blast
  show "fst s1 = fst s @ [GetIndex indexName, GetDocumentsCount indexName]"
    using assms(1) by (rule describeIndex_calls)
qed

theorem upsert_dimension_mismatch_witness:
  "(\<exists>i n. upsert mockService mock_randomUUID ''test-index'' [[1, 2, 3], [1, 2]] [] None ([], ())
            = (Inl (MastraError ''STORAGE_AZURE_AI_SEARCH_UPSERT_FAILED''
                      (InvalidDimension i n (Some 3))),
               ([GetIndex ''test-index'', GetDocumentsCount ''test-index''], ())))"
  using upsert_dimension_mismatch [OF mock_describeIndex,
      of "[[1, 2, 3], [1, 2]]" mock_randomUUID "[]" None]
  by simp

text \<open>
  C10 (the check of the raw field is a truthiness check). In both revisions a filter whose
  raw field is present and empty is translated through \<^verbatim>\<open>translateFilter\<close>, which
  renders the other fields and never reads the raw field; with no other field populated
  the rendering is empty. (The result of \<^verbatim>\<open>translate\<close> is then the rendering itself in
  \<^verbatim>\<open>src/unnamed/part_001\<close>, and the trimmed rendering, or \<^verbatim>\<open>undefined\<close> when that
  is empty, in \<^verbatim>\<open>src/unnamed/part_002\<close>.)
\<close>

theorem empty_raw_falls_through:
  "(raw1 f = Some [] \<longrightarrow>
        translate1 (Some f) = andThen (translateFilter1 f) (\<lambda>rendering. Inr (Some rendering)))
   \<and> (raw2 g = Some [] \<longrightarrow>
        translate2 (Some g)
          = andThen (translateFilter2 g) (\<lambda>rendering.
              Inr (if trim rendering = [] then None else Some (trim rendering))))
   \<and> translateFilter1 (Filter1 (Some []) a1 a2 a3 a4 a5 a6 a7 a8 a9 a10 a11 a12 a13 a14)
       = translateFilter1 (Filter1 None a1 a2 a3 a4 a5 a6 a7 a8 a9 a10 a11 a12 a13 a14)
   \<and> translateFilter2 (Filter2 (Some []) b1 b2 b3 b4 b5 b6 b7 b8 b9 b10 b11 b12 b13 b14)
       = translateFilter2 (Filter2 None b1 b2 b3 b4 b5 b6 b7 b8 b9 b10 b11 b12 b13 b14)
   \<and> translateFilter1 (Filter1 (Some []) None None None None None None None None None None None None None None)
       = Inr []
   \<and> translateFilter2 (Filter2 (Some []) None None None None None None None None None None None None None None)
       = Inr []"
proof (intro conjI impI)
  show "translate1 (Some f) = andThen (translateFilter1 f) (\<lambda>rendering. Inr (Some rendering))"
    if "raw1 f = Some []"
    using that by simp
  show "translate2 (Some g)
          = andThen (translateFilter2 g) (\<lambda>rendering.
              Inr (if trim rendering = [] then None else Some (trim rendering)))"
    if "raw2 g = Some []"
    using that by (cases "translateFilter2 g") (simp_all add: Let_def)
qed (simp_all add: translateFilter1_conditions translateFilter2_conditions
      del: translateFilter1.simps translateFilter2.simps)

theorem empty_raw_falls_through_witness:
  "translate1 (Some (Filter1 (Some []) None None None (Some [(''a'', JOther ''1'')]) None None None None None None None None None None))
     = Inr (Some ''a eq 1'')
   \<and> translate2 (Some (Filter2 (Some []) None None None (Some [(''a'', JOther ''1'')]) None None None None None None None None None None))
     = Inr (Some ''a eq 1'')"
proof -
  let ?f = "Filter1 (Some []) None None None (Some [(''a'', JOther ''1'')]) None None None None None None None None None None"
  let ?g = "Filter2 (Some []) None None None (Some [(''a'', JOther ''1'')]) None None None None None None None None None None"
  note fall = empty_raw_falls_through [of ?f ?g]
  have r1: "translateFilter1 ?f = Inr ''a eq 1''"
    by (simp add: eval_defs)
  have r2: "translateFilter2 ?g = Inr ''a eq 1''"
    by (simp add: eval_defs)
  have t: "trim ''a eq 1'' = ''a eq 1''"
    by (simp add: trim_def isWhiteSpace_def)
  have "translate1 (Some ?f) = andThen (translateFilter1 ?f) (\<lambda>rendering. Inr (Some rendering))"
    using fall [THEN conjunct1] by simp
  moreover have "translate2 (Some ?g)
      = andThen (translateFilter2 ?g) (\<lambda>rendering.
              Inr (if trim rendering = [] then None else Some (trim rendering)))"
    using fall [THEN conjunct2, THEN conjunct1] by simp
  ultimately show ?thesis by (simp only: r1 r2 andThen_Inr t) simp
qed

end
